theory Spec2Isabelle
  imports Complex_Main
begin

section \<open>JavaScript values\<close>

text \<open>
  The handlers of \<^verbatim>\<open>controllers/restaurantController.js\<close> work on dynamically typed
  request data. A number is a JavaScript number: not-a-number, an infinity, or a finite
  value. Finite values are kept as exact rationals; rounding to binary64 is outside the
  model, so a sum of finite values is the exact sum.
\<close>

datatype jsnum = NaN | PInf | NInf | Fin rat

text \<open>
  An object is the list of its own enumerable properties in enumeration order, with
  distinct keys; a property lookup takes the first entry of a key.
\<close>

datatype jsval =
    JUndefined
  | JNull
  | JBool bool
  | JNum jsnum
  | JStr string
  | JArr "jsval list"
  | JObj "(string \<times> jsval) list"

text \<open>What a \<^verbatim>\<open>throw\<close> carries; \<^verbatim>\<open>err.message\<close> is its text.\<close>

datatype exn =
    ReferenceError string
  | TypeError string
  | SyntaxError string
  | Error string
  | CastError string
  | ValidationError string

fun message :: "exn \<Rightarrow> string" where
  "message (ReferenceError m) = m"
| "message (TypeError m) = m"
| "message (SyntaxError m) = m"
| "message (Error m) = m"
| "message (CastError m) = m"
| "message (ValidationError m) = m"

text \<open>Sequencing of steps that may throw: the first exception ends the evaluation.\<close>

definition bindE :: "exn + 'a \<Rightarrow> ('a \<Rightarrow> exn + 'b) \<Rightarrow> exn + 'b" where
  "bindE m f = (case m of Inl e \<Rightarrow> Inl e | Inr x \<Rightarrow> f x)"

subsection \<open>Truthiness, property access\<close>

fun truthy :: "jsval \<Rightarrow> bool" where
  "truthy JUndefined = False"
| "truthy JNull = False"
| "truthy (JBool b) = b"
| "truthy (JNum n) = (n \<noteq> NaN \<and> n \<noteq> Fin 0)"
| "truthy (JStr s) = (s \<noteq> [])"
| "truthy (JArr xs) = True"
| "truthy (JObj kvs) = True"

definition nullish :: "jsval \<Rightarrow> bool" where
  "nullish v = (v = JUndefined \<or> v = JNull)"

text \<open>
  \<^verbatim>\<open>v[k]\<close> on a value that is neither \<^verbatim>\<open>null\<close> nor \<^verbatim>\<open>undefined\<close>, for the
  property names the handlers read. These are fixed identifiers (\<^verbatim>\<open>name\<close>,
  \<^verbatim>\<open>address\<close>, \<^verbatim>\<open>length\<close>, \<^verbatim>\<open>startTime\<close>, ...); none is an array index and none is
  a method inherited from a prototype, so a primitive or an array answers
  \<^verbatim>\<open>undefined\<close> to all of them but \<^verbatim>\<open>length\<close>.
\<close>

fun get_prop :: "jsval \<Rightarrow> string \<Rightarrow> jsval" where
  "get_prop (JObj kvs) k = (case map_of kvs k of None \<Rightarrow> JUndefined | Some v \<Rightarrow> v)"
| "get_prop (JStr s) k = (if k = ''length'' then JNum (Fin (of_nat (length s))) else JUndefined)"
| "get_prop (JArr xs) k = (if k = ''length'' then JNum (Fin (of_nat (length xs))) else JUndefined)"
| "get_prop v k = JUndefined"

text \<open>\<^verbatim>\<open>v?.[k]\<close>: optional chaining answers \<^verbatim>\<open>undefined\<close> on a nullish receiver.\<close>

definition opt_get :: "jsval \<Rightarrow> string \<Rightarrow> jsval" where
  "opt_get v k = (if nullish v then JUndefined else get_prop v k)"

text \<open>\<^verbatim>\<open>v.k\<close>: a nullish receiver throws.\<close>

definition member :: "jsval \<Rightarrow> string \<Rightarrow> exn + jsval" where
  "member v k =
     (if nullish v then Inl (TypeError (''Cannot read properties of null or undefined (reading '' @ k @ '')''))
      else Inr (get_prop v k))"

text \<open>Assignment \<^verbatim>\<open>o.k = v\<close> on a stored document: replaces the property or appends it.\<close>

fun put_assoc :: "string \<Rightarrow> jsval \<Rightarrow> (string \<times> jsval) list \<Rightarrow> (string \<times> jsval) list" where
  "put_assoc k v [] = [(k, v)]"
| "put_assoc k v ((k', v') # kvs) = (if k' = k then (k, v) # kvs else (k', v') # put_assoc k v kvs)"

fun set_prop :: "jsval \<Rightarrow> string \<Rightarrow> jsval \<Rightarrow> jsval" where
  "set_prop (JObj kvs) k v = JObj (put_assoc k v kvs)"
| "set_prop d k v = d"

subsection \<open>Strings\<close>

text \<open>
  Strings are byte strings. \<^verbatim>\<open>String.prototype.trim\<close> removes white space and line
  terminators at both ends; of these the ASCII ones are modelled (tab, line feed,
  vertical tab, form feed, carriage return, space).
\<close>

definition is_space :: "char \<Rightarrow> bool" where
  "is_space c = ((of_char c :: nat) \<in> {9, 10, 11, 12, 13, 32})"

definition trim_start :: "string \<Rightarrow> string" where
  "trim_start s = dropWhile is_space s"

definition trim :: "string \<Rightarrow> string" where
  "trim s = rev (dropWhile is_space (rev (dropWhile is_space s)))"

text \<open>\<^verbatim>\<open>s.split(c)\<close> for a one-character separator: never empty, \<^verbatim>\<open>"".split(",")\<close> is \<^verbatim>\<open>[""]\<close>.\<close>

fun split_on :: "char \<Rightarrow> string \<Rightarrow> string list" where
  "split_on c [] = [] # []"
| "split_on c (x # xs) =
     (if x = c then [] # split_on c xs
      else (case split_on c xs of [] \<Rightarrow> [x] # [] | y # ys \<Rightarrow> (x # y) # ys))"

text \<open>\<^verbatim>\<open>xs.join(sep)\<close> on strings.\<close>

fun join_str :: "string \<Rightarrow> string list \<Rightarrow> string" where
  "join_str sep [] = []"
| "join_str sep [x] = x"
| "join_str sep (x # y # ys) = x @ sep @ join_str sep (y # ys)"

definition is_digit :: "char \<Rightarrow> bool" where
  "is_digit c = (c \<in> set ''0123456789'')"

definition digit_val :: "char \<Rightarrow> nat" where
  "digit_val c = of_char c - 48"

definition digits_val :: "string \<Rightarrow> nat" where
  "digits_val ds = foldl (\<lambda>n c. 10 * n + digit_val c) 0 ds"

definition to_lower_char :: "char \<Rightarrow> char" where
  "to_lower_char c =
     (if c \<in> set ''ABCDEFGHIJKLMNOPQRSTUVWXYZ'' then char_of ((of_char c :: nat) + 32) else c)"

text \<open>\<^verbatim>\<open>s.toLowerCase()\<close> on ASCII letters.\<close>

definition toLowerCase :: "string \<Rightarrow> string" where
  "toLowerCase s = map to_lower_char s"

text \<open>
  \<^verbatim>\<open>ToString\<close>. The decimal text of a number is the platform's
  \<^verbatim>\<open>Number.prototype.toString\<close>, a parameter. An array is its elements joined by
  commas, \<^verbatim>\<open>null\<close> and \<^verbatim>\<open>undefined\<close> elements contributing the empty string.
\<close>

fun to_string :: "(jsnum \<Rightarrow> string) \<Rightarrow> jsval \<Rightarrow> string" where
  "to_string nts JUndefined = ''undefined''"
| "to_string nts JNull = ''null''"
| "to_string nts (JBool b) = (if b then ''true'' else ''false'')"
| "to_string nts (JNum n) = nts n"
| "to_string nts (JStr s) = s"
| "to_string nts (JArr xs) =
     join_str '','' (map (\<lambda>x. if x = JUndefined \<or> x = JNull then [] else to_string nts x) xs)"
| "to_string nts (JObj kvs) = ''[object Object]''"

text \<open>The element texts \<^verbatim>\<open>Array.prototype.join\<close> concatenates.\<close>

definition join_vals :: "(jsnum \<Rightarrow> string) \<Rightarrow> string \<Rightarrow> jsval list \<Rightarrow> string" where
  "join_vals nts sep xs =
     join_str sep (map (\<lambda>x. if x = JUndefined \<or> x = JNull then [] else to_string nts x) xs)"

subsection \<open>Numbers\<close>

fun num_neg :: "jsnum \<Rightarrow> jsnum" where
  "num_neg NaN = NaN"
| "num_neg PInf = NInf"
| "num_neg NInf = PInf"
| "num_neg (Fin x) = Fin (- x)"

fun num_add :: "jsnum \<Rightarrow> jsnum \<Rightarrow> jsnum" where
  "num_add NaN y = NaN"
| "num_add x NaN = NaN"
| "num_add PInf NInf = NaN"
| "num_add NInf PInf = NaN"
| "num_add PInf y = PInf"
| "num_add NInf y = NInf"
| "num_add x PInf = PInf"
| "num_add x NInf = NInf"
| "num_add (Fin a) (Fin b) = Fin (a + b)"

fun num_less :: "jsnum \<Rightarrow> jsnum \<Rightarrow> bool" where
  "num_less NaN y = False"
| "num_less x NaN = False"
| "num_less x NInf = False"
| "num_less PInf y = False"
| "num_less NInf y = True"
| "num_less x PInf = True"
| "num_less (Fin a) (Fin b) = (a < b)"

definition starts_with :: "string \<Rightarrow> string \<Rightarrow> bool" where
  "starts_with p s = (take (length p) s = p)"

definition pow10 :: "int \<Rightarrow> rat" where
  "pow10 k = (if 0 \<le> k then 10 ^ nat k else 1 / 10 ^ nat (- k))"

text \<open>
  The longest prefix that is a \<^verbatim>\<open>StrDecimalLiteral\<close> of the language standard
  (optional sign, then \<^verbatim>\<open>Infinity\<close>, or digits with an optional fraction and an
  optional exponent), with its value and the text after it. The value is the exact
  decimal value: rounding to binary64, overflow to an infinity and underflow to zero are
  outside the model.
\<close>

definition scan_exponent :: "string \<Rightarrow> int \<times> string" where
  "scan_exponent s =
     (case s of
        [] \<Rightarrow> (0, s)
      | c # r \<Rightarrow>
          if c = CHR ''e'' \<or> c = CHR ''E'' then
            (let neg = (r \<noteq> [] \<and> hd r = CHR ''-'');
                 r' = (if r \<noteq> [] \<and> (hd r = CHR ''-'' \<or> hd r = CHR ''+'') then tl r else r);
                 ds = takeWhile is_digit r'
             in if ds = [] then (0, s)
                else (if neg then - int (digits_val ds) else int (digits_val ds), dropWhile is_digit r'))
          else (0, s))"

definition scan_unsigned :: "string \<Rightarrow> (jsnum \<times> string) option" where
  "scan_unsigned s =
     (if starts_with ''Infinity'' s then Some (PInf, drop 8 s)
      else
        (let ip = takeWhile is_digit s;
             r1 = dropWhile is_digit s;
             has_dot = (r1 \<noteq> [] \<and> hd r1 = CHR ''.'');
             fp = (if has_dot then takeWhile is_digit (tl r1) else []);
             r2 = (if has_dot then dropWhile is_digit (tl r1) else r1)
         in if ip = [] \<and> fp = [] then None
            else (case scan_exponent r2 of
                    (ex, r3) \<Rightarrow>
                      Some (Fin (of_nat (digits_val (ip @ fp)) * pow10 (ex - int (length fp))), r3))))"

definition scan_decimal :: "string \<Rightarrow> (jsnum \<times> string) option" where
  "scan_decimal s =
     (case s of
        [] \<Rightarrow> None
      | c # r \<Rightarrow>
          if c = CHR ''-'' then map_option (\<lambda>(n, t). (num_neg n, t)) (scan_unsigned r)
          else if c = CHR ''+'' then scan_unsigned r
          else scan_unsigned s)"

text \<open>
  \<^verbatim>\<open>parseFloat(v)\<close>: the text of \<^verbatim>\<open>v\<close>, leading white space dropped, read as far
  as it is a decimal literal; not-a-number when no prefix is one. A number is read back
  from its own text unchanged.
\<close>

definition parseFloat :: "(jsnum \<Rightarrow> string) \<Rightarrow> jsval \<Rightarrow> jsnum" where
  "parseFloat nts v =
     (case v of
        JNum n \<Rightarrow> n
      | _ \<Rightarrow> (case scan_decimal (trim_start (to_string nts v)) of
                None \<Rightarrow> NaN
              | Some (n, rest) \<Rightarrow> n))"

fun radix_digit :: "nat \<Rightarrow> char \<Rightarrow> nat option" where
  "radix_digit b c =
     (let d = (if is_digit c then Some (digit_val c)
               else if c \<in> set ''abcdef'' then Some (of_char c - 87)
               else if c \<in> set ''ABCDEF'' then Some (of_char c - 55)
               else None)
      in case d of None \<Rightarrow> None | Some n \<Rightarrow> if n < b then Some n else None)"

definition radix_val :: "nat \<Rightarrow> string \<Rightarrow> jsnum" where
  "radix_val b ds =
     (if ds \<noteq> [] \<and> list_all (\<lambda>c. radix_digit b c \<noteq> None) ds
      then Fin (of_nat (foldl (\<lambda>n c. b * n + the (radix_digit b c)) 0 ds))
      else NaN)"

text \<open>\<^verbatim>\<open>StringToNumber\<close>: the whole trimmed text must be a numeric literal; empty text is 0.\<close>

definition string_to_number :: "string \<Rightarrow> jsnum" where
  "string_to_number s =
     (let t = trim s in
      if t = [] then Fin 0
      else if starts_with ''0x'' t \<or> starts_with ''0X'' t then radix_val 16 (drop 2 t)
      else if starts_with ''0o'' t \<or> starts_with ''0O'' t then radix_val 8 (drop 2 t)
      else if starts_with ''0b'' t \<or> starts_with ''0B'' t then radix_val 2 (drop 2 t)
      else (case scan_decimal t of
              Some (n, []) \<Rightarrow> n
            | _ \<Rightarrow> NaN))"

text \<open>\<^verbatim>\<open>ToNumber\<close>; arrays and objects go through their text.\<close>

fun to_number :: "(jsnum \<Rightarrow> string) \<Rightarrow> jsval \<Rightarrow> jsnum" where
  "to_number nts JUndefined = NaN"
| "to_number nts JNull = Fin 0"
| "to_number nts (JBool b) = Fin (if b then 1 else 0)"
| "to_number nts (JNum n) = n"
| "to_number nts (JStr s) = string_to_number s"
| "to_number nts v = string_to_number (to_string nts v)"

text \<open>\<^verbatim>\<open>a || b\<close>.\<close>

definition js_or :: "jsval \<Rightarrow> jsval \<Rightarrow> jsval" where
  "js_or a b = (if truthy a then a else b)"

text \<open>\<^verbatim>\<open>a + b\<close>: concatenation as soon as one side is (or converts to) a string.\<close>

definition to_primitive :: "(jsnum \<Rightarrow> string) \<Rightarrow> jsval \<Rightarrow> jsval" where
  "to_primitive nts v = (case v of JArr xs \<Rightarrow> JStr (to_string nts v) | JObj kvs \<Rightarrow> JStr (to_string nts v) | _ \<Rightarrow> v)"

definition is_str :: "jsval \<Rightarrow> bool" where
  "is_str v = (case v of JStr s \<Rightarrow> True | _ \<Rightarrow> False)"

definition js_plus :: "(jsnum \<Rightarrow> string) \<Rightarrow> jsval \<Rightarrow> jsval \<Rightarrow> jsval" where
  "js_plus nts a b =
     (let pa = to_primitive nts a; pb = to_primitive nts b in
      if is_str pa \<or> is_str pb then JStr (to_string nts pa @ to_string nts pb)
      else JNum (num_add (to_number nts pa) (to_number nts pb)))"

section \<open>Requests, responses, the store and the environment\<close>

text \<open>An uploaded file as the multipart middleware hands it over; only its path is read.\<close>

record jsfile =
  path :: string

text \<open>
  \<^verbatim>\<open>req.files\<close>: absent, an object from field name to the files of that field
  (\<^verbatim>\<open>createRestaurant\<close> reads it so), or an array of files (\<^verbatim>\<open>addKyc\<close> reads it so).
\<close>

datatype files = NoFiles | FileFields "(string \<times> jsfile list) list" | FileArray "jsfile list"

record request =
  restaurantId :: string
  body :: jsval
  files :: files

text \<open>\<^verbatim>\<open>res.status(c).json(v)\<close>.\<close>

record response =
  status :: nat
  json :: jsval

definition respond :: "nat \<Rightarrow> (string \<times> jsval) list \<Rightarrow> response" where
  "respond c kvs = \<lparr>status = c, json = JObj kvs\<rparr>"

text \<open>
  Modelled from the spec: the record store. The models (\<^verbatim>\<open>models/restaurantModel\<close>,
  \<^verbatim>\<open>restaurantPermissionModel\<close>, \<^verbatim>\<open>categoryModel\<close>, \<^verbatim>\<open>productModel\<close>,
  \<^verbatim>\<open>RestaurantEarningModel\<close>) are not part of the source. Each collection is the list
  of its documents; a schema is what creating or saving a document may reject and the
  defaults it fills in. A document is stored as it is given.
\<close>

record schema =
  schema_validate :: "jsval \<Rightarrow> exn option"
  schema_defaults :: "(string \<times> jsval) list"

record db =
  restaurants :: "jsval list"
  permissions :: "jsval list"
  categories :: "jsval list"
  products :: "jsval list"
  earnings :: "jsval list"

text \<open>What the global object binds to the name \<^verbatim>\<open>bcrypt\<close>, when it binds it.\<close>

record bcrypt_lib =
  genSalt :: "nat \<Rightarrow> exn + string"
  hash :: "jsval \<Rightarrow> string \<Rightarrow> exn + string"

text \<open>
  Everything the handlers use and the source does not define: the global object as far as
  the free identifier \<^verbatim>\<open>bcrypt\<close> goes, built-ins of the platform
  (\<^verbatim>\<open>JSON.parse\<close> with \<open>None\<close> for a syntax error, the text of a number, the text of
  \<^verbatim>\<open>Math.random().toString(36)\<close>), the upload helper \<^verbatim>\<open>utils/cloudinary\<close> (the
  result of the \<open>k\<close>-th upload of a request for a path: an exception, or the returned
  value), the identifier test of the database driver with its identifier generator, and
  the two schemas.
\<close>

record world =
  global_bcrypt :: "bcrypt_lib option"
  JSON_parse :: "string \<Rightarrow> jsval option"
  Number_toString :: "jsnum \<Rightarrow> string"
  Math_random36 :: string
  uploadOnCloudinary :: "nat \<Rightarrow> string \<Rightarrow> exn + jsval"
  ObjectId_isValid :: "string \<Rightarrow> bool"
  ObjectId_new :: "db \<Rightarrow> string"
  restaurantModel :: schema
  permissionModel :: schema

text \<open>
  The names the module binds at its top (lines 1 to 10 of the controller): six models,
  \<^verbatim>\<open>mongoose\<close> and \<^verbatim>\<open>uploadOnCloudinary\<close>. Any other free identifier of a handler
  resolves through the global object or not at all.
\<close>

definition module_bindings :: "string list" where
  "module_bindings =
     [''Restaurant'', ''RestaurantEarning'', ''Permission'', ''Order'', ''Product'', ''Category'',
      ''mongoose'', ''uploadOnCloudinary'']"

definition resolve_bcrypt :: "world \<Rightarrow> exn + bcrypt_lib" where
  "resolve_bcrypt w =
     (case global_bcrypt w of
        None \<Rightarrow> Inl (ReferenceError ''bcrypt is not defined'')
      | Some lib \<Rightarrow> Inr lib)"

text \<open>
  Modelled from the spec: \<^verbatim>\<open>Model.create(d)\<close> of the record store (the model files are
  not part of the source). Validation, then the document with its identifier and the
  defaults of the properties it does not have.
\<close>

fun doc_fields :: "jsval \<Rightarrow> (string \<times> jsval) list" where
  "doc_fields (JObj kvs) = kvs"
| "doc_fields v = []"

definition Model_create :: "schema \<Rightarrow> string \<Rightarrow> jsval \<Rightarrow> exn + jsval" where
  "Model_create sch oid d =
     (case schema_validate sch d of
        Some e \<Rightarrow> Inl e
      | None \<Rightarrow>
          Inr (JObj ((''_id'', JStr oid) # doc_fields d
                 @ filter (\<lambda>(k, v). k \<notin> set (map fst (doc_fields d)) \<and> k \<noteq> ''_id'') (schema_defaults sch))))"

section \<open>createRestaurant\<close>

text \<open>
  A step of the handler throws (\<open>Inl\<close>), answers the request and returns
  (\<open>Inr (Inl response)\<close>), or goes on with a value (\<open>Inr (Inr x)\<close>).
\<close>

definition thenStep ::
  "exn + (response + 'a) \<Rightarrow> ('a \<Rightarrow> exn + (response + 'b)) \<Rightarrow> exn + (response + 'b)" where
  "thenStep m f = (case m of Inl e \<Rightarrow> Inl e | Inr (Inl r) \<Rightarrow> Inr (Inl r) | Inr (Inr x) \<Rightarrow> f x)"

subsection \<open>Step 1: required fields\<close>

definition requiredFields :: "string list" where
  "requiredFields =
     [''name'', ''ownerName'', ''phone'', ''email'',
      ''password'',
      ''fssaiNumber'', ''gstNumber'', ''aadharNumber'',
      ''address.street'', ''address.city'', ''address.state'',
      ''foodType'', ''openingHours'']"

text \<open>The loop over the parts of a dotted path: it stops at the first \<^verbatim>\<open>undefined\<close>.\<close>

fun resolve_path :: "jsval \<Rightarrow> string list \<Rightarrow> jsval" where
  "resolve_path v [] = v"
| "resolve_path v (f # fs) =
     (let v' = opt_get v f in if v' = JUndefined then JUndefined else resolve_path v' fs)"

definition is_missing :: "jsval \<Rightarrow> string \<Rightarrow> bool" where
  "is_missing b field =
     (let v = resolve_path b (split_on CHR ''.'' field) in v = JUndefined \<or> v = JStr [])"

definition missingFields :: "jsval \<Rightarrow> string list" where
  "missingFields b = filter (is_missing b) requiredFields"

definition checkRequiredFields :: "jsval \<Rightarrow> exn + (response + unit)" where
  "checkRequiredFields b =
     (if length (missingFields b) > 0 then
        Inr (Inl (respond 400
          [(''success'', JBool False),
           (''message'', JStr (''Missing required fields: '' @ join_str '', '' (missingFields b))),
           (''code'', JStr ''REQUIRED_FIELD_MISSING'')]))
      else Inr (Inr ()))"

subsection \<open>Step 2: password length\<close>

definition checkPassword :: "world \<Rightarrow> jsval \<Rightarrow> exn + (response + unit)" where
  "checkPassword w b =
     bindE (member b ''password'') (\<lambda>password.
     bindE (member password ''length'') (\<lambda>len.
       if num_less (to_number (Number_toString w) len) (Fin 8) then
         Inr (Inl (respond 400
           [(''success'', JBool False),
            (''message'', JStr ''Password must be at least 8 characters long''),
            (''code'', JStr ''WEAK_PASSWORD'')]))
       else Inr (Inr ())))"

subsection \<open>Step 3: food type\<close>

text \<open>A call of a string method on a value: only a string has it.\<close>

definition as_string :: "string \<Rightarrow> jsval \<Rightarrow> exn + string" where
  "as_string method v =
     (case v of
        JStr s \<Rightarrow> Inr s
      | _ \<Rightarrow> Inl (TypeError (method @ '' is not a function'')))"

definition trimmed :: "jsval \<Rightarrow> string \<Rightarrow> exn + string" where
  "trimmed obj k = bindE (member obj k) (\<lambda>v. bindE (as_string ''trim'' v) (\<lambda>s. Inr (trim s)))"

definition validFoodTypes :: "string list" where
  "validFoodTypes = [''veg'', ''non-veg'', ''both'']"

definition checkFoodType :: "jsval \<Rightarrow> exn + (response + unit)" where
  "checkFoodType b =
     bindE (trimmed b ''foodType'') (\<lambda>foodType.
       if foodType \<notin> set validFoodTypes then
         Inr (Inl (respond 400
           [(''success'', JBool False),
            (''message'', JStr (''Invalid foodType. Allowed: '' @ join_str '', '' validFoodTypes)),
            (''code'', JStr ''INVALID_FOOD_TYPE'')]))
       else Inr (Inr ()))"

subsection \<open>Step 4: opening hours\<close>

definition invalidOpeningHours :: response where
  "invalidOpeningHours =
     respond 400
       [(''success'', JBool False),
        (''message'', JStr ''Invalid openingHours. Expected a valid JSON array.''),
        (''code'', JStr ''INVALID_OPENING_HOURS'')]"

definition is_array :: "jsval \<Rightarrow> bool" where
  "is_array v = (case v of JArr xs \<Rightarrow> True | _ \<Rightarrow> False)"

text \<open>The inner \<^verbatim>\<open>try\<close>: whatever is thrown inside it ends in the 400 answer.\<close>

definition parseOpeningHours :: "world \<Rightarrow> jsval \<Rightarrow> exn + (response + jsval)" where
  "parseOpeningHours w b =
     (case member b ''openingHours'' of
        Inl e \<Rightarrow> Inr (Inl invalidOpeningHours)
      | Inr v \<Rightarrow>
          (case JSON_parse w (to_string (Number_toString w) v) of
             None \<Rightarrow> Inr (Inl invalidOpeningHours)
           | Some openingHours \<Rightarrow>
               if \<not> is_array openingHours then Inr (Inl invalidOpeningHours)
               else Inr (Inr openingHours)))"

subsection \<open>Step 5: required documents\<close>

definition requiredDocs :: "(string \<times> string) list" where
  "requiredDocs =
     [(''fssaiDoc'', ''FSSAI License''),
      (''gstDoc'', ''GST Certificate''),
      (''aadharDoc'', ''Aadhar Card'')]"

text \<open>\<^verbatim>\<open>req.files?.[doc]?.[0]\<close>.\<close>

fun files_first :: "files \<Rightarrow> string \<Rightarrow> jsfile option" where
  "files_first NoFiles doc = None"
| "files_first (FileFields fs) doc =
     (case map_of fs doc of None \<Rightarrow> None | Some [] \<Rightarrow> None | Some (f # rest) \<Rightarrow> Some f)"
| "files_first (FileArray xs) doc = None"

definition missingDocs :: "files \<Rightarrow> string list" where
  "missingDocs fs = map snd (filter (\<lambda>(doc, label). files_first fs doc = None) requiredDocs)"

definition checkDocuments :: "files \<Rightarrow> exn + (response + unit)" where
  "checkDocuments fs =
     (if length (missingDocs fs) > 0 then
        Inr (Inl (respond 400
          [(''success'', JBool False),
           (''message'', JStr (''Missing documents: '' @ join_str '', '' (missingDocs fs))),
           (''code'', JStr ''DOCUMENT_REQUIRED'')]))
      else Inr (Inr ()))"

subsection \<open>Step 6: payment methods\<close>

definition allowedPaymentMethods :: "string list" where
  "allowedPaymentMethods = [''online'', ''cod'', ''wallet'']"

definition normalizePaymentMethods :: "jsval \<Rightarrow> jsval" where
  "normalizePaymentMethods paymentMethods =
     (case paymentMethods of
        JStr s \<Rightarrow> JArr (map (\<lambda>m. JStr (trim m)) (split_on CHR '','' s))
      | _ \<Rightarrow> if \<not> truthy paymentMethods then JArr [JStr ''online''] else paymentMethods)"

definition invalidMethods :: "jsval list \<Rightarrow> jsval list" where
  "invalidMethods ms = filter (\<lambda>m. m \<notin> set (map JStr allowedPaymentMethods)) ms"

definition checkPaymentMethods :: "world \<Rightarrow> jsval \<Rightarrow> exn + (response + jsval)" where
  "checkPaymentMethods w b =
     bindE (member b ''paymentMethods'') (\<lambda>raw.
       (case normalizePaymentMethods raw of
          JArr ms \<Rightarrow>
            if length (invalidMethods ms) > 0 then
              Inr (Inl (respond 400
                [(''success'', JBool False),
                 (''message'', JStr (''Invalid payment methods: ''
                    @ join_vals (Number_toString w) '', '' (invalidMethods ms)
                    @ ''. Allowed: '' @ join_str '', '' allowedPaymentMethods))]))
            else Inr (Inr (JArr ms))
        | other \<Rightarrow> Inl (TypeError ''paymentMethods.filter is not a function'')))"

text \<open>Steps 1 to 6 in the order of the source; the result is the parsed opening hours and
  the normalised payment methods.\<close>

definition validateRequest :: "world \<Rightarrow> request \<Rightarrow> exn + (response + jsval \<times> jsval)" where
  "validateRequest w req =
     thenStep (checkRequiredFields (body req)) (\<lambda>u1.
     thenStep (checkPassword w (body req)) (\<lambda>u2.
     thenStep (checkFoodType (body req)) (\<lambda>u3.
     thenStep (parseOpeningHours w (body req)) (\<lambda>openingHours.
     thenStep (checkDocuments (files req)) (\<lambda>u5.
     thenStep (checkPaymentMethods w (body req)) (\<lambda>paymentMethods.
       Inr (Inr (openingHours, paymentMethods))))))))"

subsection \<open>Step 7: hashing the password\<close>

text \<open>
  \<^verbatim>\<open>bcrypt\<close> is not among \<open>module_bindings\<close>: evaluating the identifier asks the
  global object, and throws when the global object does not have it.
\<close>

definition hashPassword :: "world \<Rightarrow> jsval \<Rightarrow> exn + string" where
  "hashPassword w b =
     bindE (resolve_bcrypt w) (\<lambda>bcrypt.
     bindE (genSalt bcrypt 10) (\<lambda>salt.
     bindE (member b ''password'') (\<lambda>password.
       hash bcrypt password salt)))"

subsection \<open>Step 8: uploading the three documents\<close>

text \<open>\<^verbatim>\<open>req.files.doc[0].path\<close>.\<close>

definition files_path :: "files \<Rightarrow> string \<Rightarrow> exn + string" where
  "files_path fs doc =
     (case files_first fs doc of
        None \<Rightarrow> Inl (TypeError (''Cannot read properties of undefined (reading '' @ doc @ '')''))
      | Some f \<Rightarrow> Inr (path f))"

definition uploadDocuments :: "world \<Rightarrow> files \<Rightarrow> exn + jsval \<times> jsval \<times> jsval" where
  "uploadDocuments w fs =
     bindE (files_path fs ''fssaiDoc'') (\<lambda>p1.
     bindE (uploadOnCloudinary w 0 p1) (\<lambda>fssaiDoc.
     bindE (files_path fs ''gstDoc'') (\<lambda>p2.
     bindE (uploadOnCloudinary w 1 p2) (\<lambda>gstDoc.
     bindE (files_path fs ''aadharDoc'') (\<lambda>p3.
     bindE (uploadOnCloudinary w 2 p3) (\<lambda>aadharDoc.
       if \<not> truthy fssaiDoc \<or> \<not> truthy gstDoc \<or> \<not> truthy aadharDoc
       then Inl (Error ''Document upload failed'')
       else Inr (fssaiDoc, gstDoc, aadharDoc)))))))"

subsection \<open>Step 9: the slug\<close>

definition lowered :: "jsval \<Rightarrow> string \<Rightarrow> exn + string" where
  "lowered obj k =
     bindE (member obj k) (\<lambda>v. bindE (as_string ''toLowerCase'' v) (\<lambda>s. Inr (toLowerCase s)))"

definition is_slug_char :: "char \<Rightarrow> bool" where
  "is_slug_char c = (c \<in> set ''abcdefghijklmnopqrstuvwxyz0123456789'')"

text \<open>\<^verbatim>\<open>s.replace(/[^a-z0-9]+/g, '-')\<close>; the flag says that a run is being replaced.\<close>

fun dash_runs :: "bool \<Rightarrow> string \<Rightarrow> string" where
  "dash_runs in_run [] = []"
| "dash_runs in_run (c # cs) =
     (if is_slug_char c then c # dash_runs False cs
      else if in_run then dash_runs True cs
      else CHR ''-'' # dash_runs True cs)"

definition makeSlug :: "world \<Rightarrow> jsval \<Rightarrow> exn + string" where
  "makeSlug w b =
     bindE (lowered b ''name'') (\<lambda>name.
     bindE (member b ''address'') (\<lambda>address.
     bindE (lowered address ''city'') (\<lambda>city.
       Inr (dash_runs False name @ ''-'' @ city @ ''-'' @ take 4 (drop 2 (Math_random36 w))))))"

subsection \<open>Step 10: the restaurant document\<close>

text \<open>\<^verbatim>\<open>parseFloat(v) || 0\<close>.\<close>

definition coordinate :: "world \<Rightarrow> jsval \<Rightarrow> jsval" where
  "coordinate w v = js_or (JNum (parseFloat (Number_toString w) v)) (JNum (Fin 0))"

definition restaurantData ::
  "world \<Rightarrow> jsval \<Rightarrow> string \<Rightarrow> jsval \<Rightarrow> jsval \<Rightarrow> jsval \<Rightarrow> jsval \<Rightarrow> jsval \<Rightarrow> exn + jsval" where
  "restaurantData w b hashedPassword openingHours paymentMethods fssaiDoc gstDoc aadharDoc =
     bindE (trimmed b ''name'') (\<lambda>name.
     bindE (trimmed b ''ownerName'') (\<lambda>ownerName.
     bindE (member b ''address'') (\<lambda>address.
     bindE (trimmed address ''street'') (\<lambda>street.
     bindE (trimmed address ''city'') (\<lambda>city.
     bindE (trimmed address ''state'') (\<lambda>state.
     bindE (trimmed b ''phone'') (\<lambda>phone.
     bindE (trimmed b ''email'') (\<lambda>email.
     bindE (trimmed b ''foodType'') (\<lambda>foodType.
     bindE (trimmed b ''fssaiNumber'') (\<lambda>fssaiNumber.
     bindE (trimmed b ''gstNumber'') (\<lambda>gstNumber.
     bindE (trimmed b ''aadharNumber'') (\<lambda>aadharNumber.
     bindE (member fssaiDoc ''secure_url'') (\<lambda>fssaiDocUrl.
     bindE (member gstDoc ''secure_url'') (\<lambda>gstDocUrl.
     bindE (member aadharDoc ''secure_url'') (\<lambda>aadharDocUrl.
       Inr (JObj
         [(''name'', JStr name),
          (''ownerName'', JStr ownerName),
          (''address'', JObj
             [(''street'', JStr street),
              (''city'', JStr city),
              (''state'', JStr state),
              (''zip'', js_or (js_or (get_prop address ''pincode'') (get_prop address ''zip'')) (JStr []))]),
          (''location'', JObj
             [(''type'', JStr ''Point''),
              (''coordinates'', JArr
                 [coordinate w (get_prop address ''longitude''),
                  coordinate w (get_prop address ''latitude'')])]),
          (''phone'', JStr phone),
          (''email'', JStr email),
          (''password'', JStr hashedPassword),
          (''openingHours'', openingHours),
          (''foodType'', JStr foodType),
          (''minOrderAmount'', js_or (get_prop b ''minOrderAmount'') (JNum (Fin 100))),
          (''paymentMethods'', paymentMethods),
          (''kyc'', JObj
             [(''fssaiNumber'', JStr fssaiNumber),
              (''gstNumber'', JStr gstNumber),
              (''aadharNumber'', JStr aadharNumber)]),
          (''kycDocuments'', JObj
             [(''fssaiDocUrl'', fssaiDocUrl),
              (''gstDocUrl'', gstDocUrl),
              (''aadharDocUrl'', aadharDocUrl)])]))))))))))))))))"

subsection \<open>Steps 11 and 12: persistence, the permission record, the answer\<close>

definition defaultPermissions :: "jsval \<Rightarrow> jsval" where
  "defaultPermissions rid =
     JObj
       [(''restaurantId'', rid),
        (''permissions'', JObj
           [(''canManageMenu'', JBool True),
            (''canAcceptOrder'', JBool False),
            (''canRejectOrder'', JBool False),
            (''canManageOffers'', JBool False),
            (''canViewReports'', JBool True)])]"

text \<open>The store is returned as it is when the exception leaves the \<^verbatim>\<open>try\<close> block.\<close>

definition persist :: "world \<Rightarrow> jsval \<Rightarrow> db \<Rightarrow> (exn + response) \<times> db" where
  "persist w data d =
     (case Model_create (restaurantModel w) (ObjectId_new w d) data of
        Inl e \<Rightarrow> (Inl e, d)
      | Inr newRestaurant \<Rightarrow>
          (let d1 = d\<lparr>restaurants := restaurants d @ [newRestaurant]\<rparr> in
           case Model_create (permissionModel w) (ObjectId_new w d1)
                  (defaultPermissions (get_prop newRestaurant ''_id'')) of
             Inl e \<Rightarrow> (Inl e, d1)
           | Inr permission \<Rightarrow>
               (Inr (respond 201
                  [(''success'', JBool True),
                   (''code'', JStr ''RESTAURANT_CREATED''),
                   (''data'', JObj
                      [(''restaurantId'', get_prop newRestaurant ''_id''),
                       (''approvalStatus'', get_prop newRestaurant ''approvalStatus'')])]),
                d1\<lparr>permissions := permissions d1 @ [permission]\<rparr>)))"

text \<open>Steps 7 to 10, which touch no record.\<close>

definition prepare :: "world \<Rightarrow> request \<Rightarrow> jsval \<Rightarrow> jsval \<Rightarrow> exn + jsval" where
  "prepare w req openingHours paymentMethods =
     bindE (hashPassword w (body req)) (\<lambda>hashedPassword.
     bindE (uploadDocuments w (files req)) (\<lambda>(fssaiDoc, gstDoc, aadharDoc).
     bindE (makeSlug w (body req)) (\<lambda>slug.
       restaurantData w (body req) hashedPassword openingHours paymentMethods
         fssaiDoc gstDoc aadharDoc)))"

text \<open>The outer \<^verbatim>\<open>catch\<close>.\<close>

definition somethingWentWrong :: "exn \<Rightarrow> response" where
  "somethingWentWrong err =
     respond 500
       [(''success'', JBool False),
        (''message'', JStr ''Something went wrong''),
        (''error'', JStr (message err))]"

definition createRestaurant :: "world \<Rightarrow> request \<Rightarrow> db \<Rightarrow> response \<times> db" where
  "createRestaurant w req d =
     (case validateRequest w req of
        Inl e \<Rightarrow> (somethingWentWrong e, d)
      | Inr (Inl r) \<Rightarrow> (r, d)
      | Inr (Inr (openingHours, paymentMethods)) \<Rightarrow>
          (case prepare w req openingHours paymentMethods of
             Inl e \<Rightarrow> (somethingWentWrong e, d)
           | Inr data \<Rightarrow>
               (case persist w data d of
                  (Inl e, d') \<Rightarrow> (somethingWentWrong e, d')
                | (Inr r, d') \<Rightarrow> (r, d'))))"

section \<open>Operations on an existing restaurant\<close>

text \<open>
  Modelled from the spec: find-by-id of the record store. The driver casts the text to an
  identifier first and throws when it has not the shape of one; then the document with
  that identifier, or \<^verbatim>\<open>null\<close>. Identifiers are compared as written.
\<close>

definition castObjectId :: "world \<Rightarrow> string \<Rightarrow> exn + jsval" where
  "castObjectId w i =
     (if ObjectId_isValid w i then Inr (JStr i)
      else Inl (CastError (''Cast to ObjectId failed for value '' @ i)))"

definition findById :: "world \<Rightarrow> string \<Rightarrow> jsval list \<Rightarrow> exn + jsval option" where
  "findById w i coll =
     bindE (castObjectId w i) (\<lambda>oid. Inr (find (\<lambda>doc. get_prop doc ''_id'' = oid) coll))"

text \<open>
  Modelled from the spec: \<^verbatim>\<open>doc.save()\<close> of the record store. Validation, then the
  stored document of that identifier is replaced.
\<close>

definition Model_save :: "schema \<Rightarrow> jsval \<Rightarrow> jsval list \<Rightarrow> exn + jsval list" where
  "Model_save sch doc coll =
     (case schema_validate sch doc of
        Some e \<Rightarrow> Inl e
      | None \<Rightarrow> Inr (map (\<lambda>x. if get_prop x ''_id'' = get_prop doc ''_id'' then doc else x) coll))"

definition message_only :: "nat \<Rightarrow> string \<Rightarrow> response" where
  "message_only c m = respond c [(''message'', JStr m)]"

subsection \<open>getRestaurantById\<close>

definition getRestaurantById :: "world \<Rightarrow> request \<Rightarrow> db \<Rightarrow> response \<times> db" where
  "getRestaurantById w req d =
     (if restaurantId req = [] then (message_only 400 ''restaurantId is required.'', d)
      else if \<not> ObjectId_isValid w (restaurantId req)
      then (message_only 400 ''Invalid restaurantId format.'', d)
      else
        (case findById w (restaurantId req) (restaurants d) of
           Inl e \<Rightarrow> (message_only 500 ''Server error.'', d)
         | Inr None \<Rightarrow> (message_only 404 ''Restaurant not found.'', d)
         | Inr (Some restaurant) \<Rightarrow>
             (respond 200
                [(''message'', JStr ''Restaurant fetched successfully.''),
                 (''data'', restaurant)], d)))"

subsection \<open>updateBusinessHours\<close>





function show_nat :: "nat \<Rightarrow> string" where
  "show_nat n =
     (if n < 10 then [char_of (48 + n)] else show_nat (n div 10) @ [char_of (48 + n mod 10)])"
  by pat_completeness auto
termination
  by (relation "measure id") auto





subsection \<open>addKyc and getKyc\<close>

text \<open>
  \<^verbatim>\<open>req.files && req.files.length > 0\<close>, then the uploads of all files in order. Only a
  non-empty array of files passes the test: an object of fields has no \<^verbatim>\<open>length\<close>
  that compares greater than 0.
\<close>

fun files_to_upload :: "files \<Rightarrow> jsfile list" where
  "files_to_upload (FileArray xs) = xs"
| "files_to_upload fs = []"

fun uploadAll :: "world \<Rightarrow> nat \<Rightarrow> jsfile list \<Rightarrow> exn + jsval list" where
  "uploadAll w k [] = Inr []"
| "uploadAll w k (f # fs) =
     bindE (uploadOnCloudinary w k (path f)) (\<lambda>r.
     bindE (uploadAll w (Suc k) fs) (\<lambda>rs. Inr (r # rs)))"

definition secure_urls :: "jsval list \<Rightarrow> jsval list" where
  "secure_urls uploads =
     map (\<lambda>result. get_prop result ''secure_url'')
       (filter (\<lambda>result. truthy result \<and> truthy (get_prop result ''secure_url'')) uploads)"

text \<open>The spread \<^verbatim>\<open>[...v]\<close>: an array or a string is iterable, the rest throws.\<close>

definition spread :: "jsval \<Rightarrow> exn + jsval list" where
  "spread v =
     (case v of
        JArr xs \<Rightarrow> Inr xs
      | JStr s \<Rightarrow> Inr (map (\<lambda>c. JStr [c]) s)
      | _ \<Rightarrow> Inl (TypeError ''restaurant.kycDocuments is not iterable''))"

definition addKyc :: "world \<Rightarrow> request \<Rightarrow> db \<Rightarrow> response \<times> db" where
  "addKyc w req d =
     (let failed = (message_only 500 ''Server error while uploading KYC.'', d) in
      case findById w (restaurantId req) (restaurants d) of
        Inl e \<Rightarrow> failed
      | Inr None \<Rightarrow> (message_only 404 ''Restaurant not found.'', d)
      | Inr (Some restaurant) \<Rightarrow>
          (case uploadAll w 0 (files_to_upload (files req)) of
             Inl e \<Rightarrow> failed
           | Inr uploads \<Rightarrow>
               (case spread (get_prop restaurant ''kycDocuments'') of
                  Inl e \<Rightarrow> failed
                | Inr old \<Rightarrow>
                    (let restaurant' =
                           set_prop
                             (set_prop restaurant ''kycDocuments'' (JArr (old @ secure_urls uploads)))
                             ''kycStatus'' (JStr ''pending'')
                     in case Model_save (restaurantModel w) restaurant' (restaurants d) of
                          Inl e \<Rightarrow> failed
                        | Inr rs \<Rightarrow>
                            (respond 200
                               [(''message'', JStr ''KYC documents uploaded successfully.''),
                                (''restaurant'', restaurant')],
                             d\<lparr>restaurants := rs\<rparr>)))))"

definition getKyc :: "world \<Rightarrow> request \<Rightarrow> db \<Rightarrow> response \<times> db" where
  "getKyc w req d =
     (case findById w (restaurantId req) (restaurants d) of
        Inl e \<Rightarrow> (message_only 500 ''Server error while fetching KYC.'', d)
      | Inr None \<Rightarrow> (message_only 404 ''Restaurant not found.'', d)
      | Inr (Some restaurant) \<Rightarrow>
          (respond 200
             [(''message'', JStr ''KYC details fetched successfully.''),
              (''kycDocuments'', js_or (get_prop restaurant ''kycDocuments'') (JArr [])),
              (''kycStatus'', js_or (get_prop restaurant ''kycStatus'') (JStr ''not-submitted''))],
           d))"

subsection \<open>getRestaurantMenu\<close>

text \<open>
  Modelled from the spec: queries on the category and product collections. A query by
  example keeps the documents whose named properties equal the given values; an
  exclusion projection drops the named properties from each result.
\<close>

definition find_where :: "(string \<times> jsval) list \<Rightarrow> jsval list \<Rightarrow> jsval list" where
  "find_where cond coll = filter (\<lambda>doc. list_all (\<lambda>(k, v). get_prop doc k = v) cond) coll"

definition select_without :: "string list \<Rightarrow> jsval \<Rightarrow> jsval" where
  "select_without ks doc = JObj (filter (\<lambda>(k, v). k \<notin> set ks) (doc_fields doc))"

definition menuEntry :: "string \<Rightarrow> jsval list \<Rightarrow> jsval \<Rightarrow> jsval" where
  "menuEntry rid prods category =
     (let items =
            map (select_without [''revenueShare'', ''costPrice'', ''profitMargin''])
              (find_where [(''restaurantId'', JStr rid), (''categoryId'', get_prop category ''_id'')] prods)
      in JObj
           [(''categoryId'', get_prop category ''_id''),
            (''categoryName'', get_prop category ''name''),
            (''description'', get_prop category ''description''),
            (''images'', get_prop category ''images''),
            (''totalProducts'', JNum (Fin (of_nat (length items)))),
            (''items'', JArr items)])"

definition getRestaurantMenu :: "world \<Rightarrow> request \<Rightarrow> db \<Rightarrow> response \<times> db" where
  "getRestaurantMenu w req d =
     (if \<not> ObjectId_isValid w (restaurantId req) then
        (respond 400
           [(''message'', JStr ''Invalid restaurantId format''),
            (''messageType'', JStr ''failure''),
            (''data'', JNull)], d)
      else
        (let cats = find_where [(''restaurantId'', JStr (restaurantId req)), (''active'', JBool True)]
                      (categories d)
         in if length cats = 0 then
              (respond 404
                 [(''message'', JStr ''No categories found for this restaurant.''),
                  (''messageType'', JStr ''failure''),
                  (''data'', JNull)], d)
            else
              (respond 200
                 [(''message'', JStr ''Menu fetched successfully''),
                  (''messageType'', JStr ''success''),
                  (''data'', JArr (map (menuEntry (restaurantId req) (products d)) cats))], d)))"

subsection \<open>getRestaurantEarningSummary\<close>

text \<open>The callback of \<^verbatim>\<open>reduce\<close>; the accumulator is the pair of the two totals.\<close>

definition addEarning :: "world \<Rightarrow> jsval \<times> jsval \<Rightarrow> jsval \<Rightarrow> jsval \<times> jsval" where
  "addEarning w acc cur =
     (js_plus (Number_toString w) (fst acc) (js_or (get_prop cur ''totalOrderAmount'') (JNum (Fin 0))),
      js_plus (Number_toString w) (snd acc) (js_or (get_prop cur ''revenueShareAmount'') (JNum (Fin 0))))"

definition getRestaurantEarningSummary :: "world \<Rightarrow> request \<Rightarrow> db \<Rightarrow> response \<times> db" where
  "getRestaurantEarningSummary w req d =
     (case castObjectId w (restaurantId req) of
        Inl e \<Rightarrow>
          (respond 500
             [(''success'', JBool False), (''message'', JStr ''Failed to fetch earning summary'')], d)
      | Inr oid \<Rightarrow>
          (let totalEarnings = find_where [(''restaurantId'', oid)] (earnings d);
               summary = foldl (addEarning w) (JNum (Fin 0), JNum (Fin 0)) totalEarnings
           in (respond 200
                 [(''success'', JBool True),
                  (''summary'', JObj [(''totalAmount'', fst summary), (''totalRevenue'', snd summary)])],
               d)))"

section \<open>A sample environment\<close>

text \<open>
  Concrete values for the examples: a process whose global object has no \<^verbatim>\<open>bcrypt\<close>
  (\<open>plain_node\<close>, the module loaded as it is written) and one where something else has
  put a hashing library there (\<open>node_with_bcrypt\<close>). \<^verbatim>\<open>JSON.parse\<close> is given on the
  few texts the examples parse, the text of a number on the integers (the examples hold
  no other number), identifiers are 24 hexadecimal digits or 12 characters.
\<close>

definition sample_JSON_parse :: "string \<Rightarrow> jsval option" where
  "sample_JSON_parse s =
     (if s = ''[]'' then Some (JArr [])
      else if s = ''{}'' then Some (JObj [])
      else if s = ''null'' then Some JNull
      else None)"

definition sample_Number_toString :: "jsnum \<Rightarrow> string" where
  "sample_Number_toString n =
     (case n of
        NaN \<Rightarrow> ''NaN''
      | PInf \<Rightarrow> ''Infinity''
      | NInf \<Rightarrow> ''-Infinity''
      | Fin x \<Rightarrow> (if x < 0 then ''-'' else []) @ show_nat (nat \<bar>\<lfloor>x\<rfloor>\<bar>))"

definition is_hex :: "char \<Rightarrow> bool" where
  "is_hex c = (c \<in> set ''0123456789abcdefABCDEF'')"

definition sample_isValid :: "string \<Rightarrow> bool" where
  "sample_isValid s = (length s = 12 \<or> (length s = 24 \<and> list_all is_hex s))"

definition sample_ObjectId_new :: "db \<Rightarrow> string" where
  "sample_ObjectId_new d =
     (let n = show_nat (length (restaurants d) + length (permissions d))
      in replicate (24 - length n) CHR ''0'' @ n)"

definition sample_upload :: "nat \<Rightarrow> string \<Rightarrow> exn + jsval" where
  "sample_upload k p = Inr (JObj [(''secure_url'', JStr (''https://res.cloudinary.com/demo/'' @ p))])"

definition sample_bcrypt :: bcrypt_lib where
  "sample_bcrypt =
     \<lparr>genSalt = (\<lambda>rounds. Inr ''$2b$10$abcdefghijklmnopqrstuv''),
      hash = (\<lambda>data salt.
        case data of
          JStr s \<Rightarrow> Inr (salt @ rev s)
        | _ \<Rightarrow> Inl (Error ''Illegal arguments''))\<rparr>"

definition plain_node :: world where
  "plain_node =
     \<lparr>global_bcrypt = None,
      JSON_parse = sample_JSON_parse,
      Number_toString = sample_Number_toString,
      Math_random36 = ''0.k3x9q2m'',
      uploadOnCloudinary = sample_upload,
      ObjectId_isValid = sample_isValid,
      ObjectId_new = sample_ObjectId_new,
      restaurantModel =
        \<lparr>schema_validate = (\<lambda>doc. None), schema_defaults = [(''approvalStatus'', JStr ''pending'')]\<rparr>,
      permissionModel = \<lparr>schema_validate = (\<lambda>doc. None), schema_defaults = []\<rparr>\<rparr>"

definition node_with_bcrypt :: world where
  "node_with_bcrypt = plain_node\<lparr>global_bcrypt := Some sample_bcrypt\<rparr>"

definition empty_db :: db where
  "empty_db = \<lparr>restaurants = [], permissions = [], categories = [], products = [], earnings = []\<rparr>"

definition sample_body :: jsval where
  "sample_body =
     JObj
       [(''name'', JStr ''Spice Garden''),
        (''ownerName'', JStr ''Asha Rao''),
        (''phone'', JStr ''9876543210''),
        (''email'', JStr ''asha@example.com''),
        (''password'', JStr ''s3cretpass''),
        (''fssaiNumber'', JStr ''12345678901234''),
        (''gstNumber'', JStr ''22AAAAA0000A1Z5''),
        (''aadharNumber'', JStr ''123412341234''),
        (''address'', JObj
           [(''street'', JStr ''12 MG Road''),
            (''city'', JStr ''Pune''),
            (''state'', JStr ''MH'')]),
        (''foodType'', JStr ''veg''),
        (''openingHours'', JStr ''[]'')]"

definition sample_files :: files where
  "sample_files =
     FileFields
       [(''fssaiDoc'', [\<lparr>path = ''uploads/fssai.pdf''\<rparr>]),
        (''gstDoc'', [\<lparr>path = ''uploads/gst.pdf''\<rparr>]),
        (''aadharDoc'', [\<lparr>path = ''uploads/aadhar.pdf''\<rparr>])]"

definition sample_request :: request where
  "sample_request = \<lparr>restaurantId = [], body = sample_body, files = sample_files\<rparr>"

text \<open>A payload with an empty \<^verbatim>\<open>email\<close> and no \<^verbatim>\<open>address.city\<close>.\<close>

definition incomplete_body :: jsval where
  "incomplete_body =
     JObj
       [(''name'', JStr ''Spice Garden''),
        (''ownerName'', JStr ''Asha Rao''),
        (''phone'', JStr ''9876543210''),
        (''email'', JStr []),
        (''password'', JStr ''s3cretpass''),
        (''fssaiNumber'', JStr ''12345678901234''),
        (''gstNumber'', JStr ''22AAAAA0000A1Z5''),
        (''aadharNumber'', JStr ''123412341234''),
        (''address'', JObj
           [(''street'', JStr ''12 MG Road''),
            (''state'', JStr ''MH'')]),
        (''foodType'', JStr ''veg''),
        (''openingHours'', JStr ''[]'')]"

text \<open>The same process, with the second upload of a request returning \<^verbatim>\<open>null\<close>.\<close>

definition second_upload_fails :: world where
  "second_upload_fails =
     node_with_bcrypt\<lparr>uploadOnCloudinary := (\<lambda>k p. if k = 1 then Inr JNull else sample_upload k p)\<rparr>"

text \<open>The sample request with a longitude that is no number and no latitude.\<close>

definition malformed_coordinates_request :: request where
  "malformed_coordinates_request =
     sample_request\<lparr>body :=
       set_prop sample_body ''address''
         (JObj
            [(''street'', JStr ''12 MG Road''),
             (''city'', JStr ''Pune''),
             (''state'', JStr ''MH''),
             (''longitude'', JStr ''east'')])\<rparr>"


text \<open>A store with one restaurant, and requests to change its business hours.\<close>

definition sample_id :: string where
  "sample_id = ''65f1c0ffee0123456789abcd''"

definition stored_restaurant :: jsval where
  "stored_restaurant = JObj [(''_id'', JStr sample_id), (''name'', JStr ''Spice Garden'')]"

definition one_restaurant_db :: db where
  "one_restaurant_db = empty_db\<lparr>restaurants := [stored_restaurant]\<rparr>"


text \<open>A store with two active categories, one of them without products, and a retired one.\<close>

definition menu_request :: request where
  "menu_request = \<lparr>restaurantId = sample_id, body = JUndefined, files = NoFiles\<rparr>"

definition menu_db :: db where
  "menu_db =
     one_restaurant_db
       \<lparr>categories :=
          [JObj [(''_id'', JStr ''c1''), (''restaurantId'', JStr sample_id), (''active'', JBool True),
                 (''name'', JStr ''Starters'')],
           JObj [(''_id'', JStr ''c2''), (''restaurantId'', JStr sample_id), (''active'', JBool True),
                 (''name'', JStr ''Desserts'')],
           JObj [(''_id'', JStr ''c3''), (''restaurantId'', JStr sample_id), (''active'', JBool False),
                 (''name'', JStr ''Retired'')]],
        products :=
          [JObj [(''_id'', JStr ''p1''), (''restaurantId'', JStr sample_id), (''categoryId'', JStr ''c1''),
                 (''name'', JStr ''Samosa''), (''price'', JNum (Fin 40)),
                 (''costPrice'', JNum (Fin 15)), (''profitMargin'', JNum (Fin 25)),
                 (''revenueShare'', JNum (Fin 10))]]\<rparr>"



text \<open>A request whose identifier has not the shape of one.\<close>

definition malformed_id_request :: request where
  "malformed_id_request = \<lparr>restaurantId = ''not-an-id'', body = JUndefined, files = NoFiles\<rparr>"

section \<open>Properties\<close>

subsection \<open>Auxiliary facts\<close>

lemma bindE_eq_Inr: "bindE m f = Inr y \<longleftrightarrow> (\<exists>x. m = Inr x \<and> f x = Inr y)"
  by (cases m) (simp_all add: bindE_def)

lemma thenStep_eq_Inr_Inl:
  "thenStep m f = Inr (Inl r) \<longleftrightarrow> m = Inr (Inl r) \<or> (\<exists>x. m = Inr (Inr x) \<and> f x = Inr (Inl r))"
  by (auto simp: thenStep_def split: sum.splits)

lemma map_of_put_assoc:
  "map_of (put_assoc k v kvs) k' = (if k' = k then Some v else map_of kvs k')"
  by (induction kvs) auto

lemma get_prop_set_prop_other: "k' \<noteq> k \<Longrightarrow> get_prop (set_prop a k x) k' = get_prop a k'"
  by (cases a) (simp_all add: map_of_put_assoc)

lemma nullish_set_prop: "nullish (set_prop a k x) = nullish a"
  by (cases a) (simp_all add: nullish_def)

lemma set_prop_undefined: "set_prop a k x = JUndefined \<longleftrightarrow> a = JUndefined"
  by (cases a) simp_all

lemma opt_get_set_prop_other: "k' \<noteq> k \<Longrightarrow> opt_get (set_prop a k x) k' = opt_get a k'"
  by (simp add: opt_get_def nullish_set_prop get_prop_set_prop_other)

lemma member_set_prop_other: "k' \<noteq> k \<Longrightarrow> member (set_prop a k x) k' = member a k'"
  by (simp add: member_def nullish_set_prop get_prop_set_prop_other)

lemma opt_get_address:
  "k \<noteq> ''length'' \<Longrightarrow> opt_get (set_prop b k (set_prop (get_prop b k) k' x)) k = set_prop (opt_get b k) k' x"
  by (cases b) (simp_all add: opt_get_def nullish_def map_of_put_assoc)

lemma trimmed_set_prop_other: "k' \<noteq> k \<Longrightarrow> trimmed (set_prop a k x) k' = trimmed a k'"
  by (simp add: trimmed_def member_set_prop_other)


lemma status_respond: "status (respond c kvs) = c"
  by (simp add: respond_def)

lemma checkRequiredFields_status: "checkRequiredFields b = Inr (Inl r) \<Longrightarrow> status r = 400"
  by (auto simp: checkRequiredFields_def status_respond split: if_splits)

lemma checkPassword_status: "checkPassword w b = Inr (Inl r) \<Longrightarrow> status r = 400"
  by (auto simp: checkPassword_def bindE_eq_Inr status_respond split: if_splits)

lemma checkFoodType_status: "checkFoodType b = Inr (Inl r) \<Longrightarrow> status r = 400"
  by (auto simp: checkFoodType_def bindE_eq_Inr status_respond split: if_splits)

lemma parseOpeningHours_status: "parseOpeningHours w b = Inr (Inl r) \<Longrightarrow> status r = 400"
  by (auto simp: parseOpeningHours_def invalidOpeningHours_def status_respond split: if_splits sum.splits option.splits)

lemma checkDocuments_status: "checkDocuments fs = Inr (Inl r) \<Longrightarrow> status r = 400"
  by (auto simp: checkDocuments_def status_respond split: if_splits)

lemma checkPaymentMethods_status: "checkPaymentMethods w b = Inr (Inl r) \<Longrightarrow> status r = 400"
  unfolding checkPaymentMethods_def bindE_def
  by (cases "member b ''paymentMethods''"; simp)
     (auto simp: status_respond split: if_splits jsval.splits)

lemma validateRequest_status: "validateRequest w req = Inr (Inl r) \<Longrightarrow> status r = 400"
  unfolding validateRequest_def thenStep_eq_Inr_Inl
  by (auto dest: checkRequiredFields_status checkPassword_status checkFoodType_status
      parseOpeningHours_status checkDocuments_status checkPaymentMethods_status)

lemma status_somethingWentWrong: "status (somethingWentWrong e) = 500"
  by (simp add: somethingWentWrong_def status_respond)

lemma persist_cases:
  "persist w data d = (res, d') \<Longrightarrow>
     (\<exists>e. res = Inl e) \<or>
     (\<exists>newRestaurant permission.
        Model_create (restaurantModel w) (ObjectId_new w d) data = Inr newRestaurant \<and>
        Model_create (permissionModel w) (ObjectId_new w (d\<lparr>restaurants := restaurants d @ [newRestaurant]\<rparr>))
          (defaultPermissions (get_prop newRestaurant ''_id'')) = Inr permission \<and>
        d' = d\<lparr>restaurants := restaurants d @ [newRestaurant], permissions := permissions d @ [permission]\<rparr> \<and>
        res = Inr (respond 201
                  [(''success'', JBool True),
                   (''code'', JStr ''RESTAURANT_CREATED''),
                   (''data'', JObj
                      [(''restaurantId'', get_prop newRestaurant ''_id''),
                       (''approvalStatus'', get_prop newRestaurant ''approvalStatus'')])]))"
  by (auto simp: persist_def Let_def split: sum.splits)

lemma createRestaurant_cases:
  "createRestaurant w req d = (r, d') \<Longrightarrow>
     (status r = 400 \<and> d' = d) \<or> status r = 500 \<or>
     (\<exists>oh pm data. validateRequest w req = Inr (Inr (oh, pm)) \<and> prepare w req oh pm = Inr data \<and>
        persist w data d = (Inr r, d'))"
  by (auto simp: createRestaurant_def status_somethingWentWrong dest: validateRequest_status
      split: sum.splits prod.splits)

lemmas sample_defs =
  plain_node_def node_with_bcrypt_def sample_request_def sample_body_def sample_files_def
  empty_db_def sample_JSON_parse_def sample_upload_def sample_bcrypt_def sample_ObjectId_new_def

lemmas step_defs =
  validateRequest_def thenStep_def checkRequiredFields_def missingFields_def is_missing_def
  requiredFields_def opt_get_def nullish_def checkPassword_def bindE_def member_def
  checkFoodType_def trimmed_def as_string_def trim_def is_space_def validFoodTypes_def
  parseOpeningHours_def is_array_def checkDocuments_def missingDocs_def requiredDocs_def
  checkPaymentMethods_def normalizePaymentMethods_def invalidMethods_def allowedPaymentMethods_def

lemma sample_validates:
  "validateRequest plain_node sample_request = Inr (Inr (JArr [], JArr [JStr ''online'']))"
  by (simp add: sample_defs step_defs)

subsection \<open>Required fields\<close>

text \<open>
  C5. When one or more of the thirteen required dotted paths resolves to \<^verbatim>\<open>undefined\<close>
  or to the empty string, \<^verbatim>\<open>createRestaurant\<close> answers 400 with the code
  \<^verbatim>\<open>REQUIRED_FIELD_MISSING\<close>, and the message names all the required paths that
  resolve so, in the order of the list and joined by commas, not only the first one.
  Nothing is stored.
\<close>

theorem createRestaurant_lists_every_missing_field:
  assumes "f \<in> set requiredFields"
    and "resolve_path (body req) (split_on CHR ''.'' f) = JUndefined
           \<or> resolve_path (body req) (split_on CHR ''.'' f) = JStr []"
  shows "\<exists>missing.
           missing = filter (\<lambda>g. resolve_path (body req) (split_on CHR ''.'' g) = JUndefined
                                \<or> resolve_path (body req) (split_on CHR ''.'' g) = JStr []) requiredFields
         \<and> f \<in> set missing
         \<and> createRestaurant w req d =
             (respond 400
                [(''success'', JBool False),
                 (''message'', JStr (''Missing required fields: '' @ join_str '', '' missing)),
                 (''code'', JStr ''REQUIRED_FIELD_MISSING'')], d)"
proof -
  let ?missing = "filter (\<lambda>g. resolve_path (body req) (split_on CHR ''.'' g) = JUndefined
                        \<or> resolve_path (body req) (split_on CHR ''.'' g) = JStr []) requiredFields"
  have eq: "missingFields (body req) = ?missing"
    by (simp add: missingFields_def is_missing_def[abs_def] Let_def)
  have mem: "f \<in> set ?missing"
    using assms by simp
  then have "length (missingFields (body req)) > 0"
    unfolding eq by (cases ?missing) auto
  then have "validateRequest w req =
      Inr (Inl (respond 400
          [(''success'', JBool False),
           (''message'', JStr (''Missing required fields: '' @ join_str '', '' (missingFields (body req)))),
           (''code'', JStr ''REQUIRED_FIELD_MISSING'')]))"
    by (simp add: validateRequest_def thenStep_def checkRequiredFields_def)
  then have "createRestaurant w req d =
      (respond 400
          [(''success'', JBool False),
           (''message'', JStr (''Missing required fields: '' @ join_str '', '' ?missing)),
           (''code'', JStr ''REQUIRED_FIELD_MISSING'')], d)"
    by (simp add: createRestaurant_def eq)
  with mem show ?thesis by blast
qed

theorem createRestaurant_lists_every_missing_field_witness:
  "''email'' \<in> set requiredFields
   \<and> resolve_path incomplete_body (split_on CHR ''.'' ''email'') = JStr []
   \<and> resolve_path incomplete_body (split_on CHR ''.'' ''address.city'') = JUndefined
   \<and> createRestaurant plain_node \<lparr>restaurantId = [], body = incomplete_body, files = NoFiles\<rparr> empty_db =
       (respond 400
          [(''success'', JBool False),
           (''message'', JStr ''Missing required fields: email, address.city''),
           (''code'', JStr ''REQUIRED_FIELD_MISSING'')], empty_db)"
  using createRestaurant_lists_every_missing_field
          [of "''email''" "\<lparr>restaurantId = [], body = incomplete_body, files = NoFiles\<rparr>" plain_node empty_db]
  by (simp add: requiredFields_def incomplete_body_def opt_get_def nullish_def)

subsection \<open>The unbound identifier\<close>

text \<open>
  C1. The module binds no \<^verbatim>\<open>bcrypt\<close>. In a process whose global object has no such
  property either, no request is answered with 201, and every request that passes the
  six validation steps (required fields, password length, food type, opening hours, the
  three documents, payment methods) is answered with 500, the error text being that of
  the reference error thrown at the hashing step; the store is left as it was.
\<close>

theorem createRestaurant_stops_at_bcrypt:
  "''bcrypt'' \<notin> set module_bindings \<and>
   (global_bcrypt w = None \<longrightarrow>
      status (fst (createRestaurant w req d)) \<noteq> 201 \<and>
      (\<forall>v. validateRequest w req = Inr (Inr v) \<longrightarrow>
         createRestaurant w req d =
           (respond 500
              [(''success'', JBool False),
               (''message'', JStr ''Something went wrong''),
               (''error'', JStr ''bcrypt is not defined'')], d)))"
proof (intro conjI impI allI)
  show "''bcrypt'' \<notin> set module_bindings"
    by (simp add: module_bindings_def)
next
  assume unbound: "global_bcrypt w = None"
  have prep: "prepare w req oh pm = Inl (ReferenceError ''bcrypt is not defined'')" for oh pm
    by (simp add: prepare_def hashPassword_def resolve_bcrypt_def unbound bindE_def)
  show "status (fst (createRestaurant w req d)) \<noteq> 201"
    using createRestaurant_cases [of w req d "fst (createRestaurant w req d)" "snd (createRestaurant w req d)"]
    by (auto simp: prep)
  fix v
  assume "validateRequest w req = Inr (Inr v)"
  then show "createRestaurant w req d =
           (respond 500
              [(''success'', JBool False),
               (''message'', JStr ''Something went wrong''),
               (''error'', JStr ''bcrypt is not defined'')], d)"
    by (cases v) (simp add: createRestaurant_def prep somethingWentWrong_def)
qed

theorem createRestaurant_stops_at_bcrypt_witness:
  "global_bcrypt plain_node = None
   \<and> validateRequest plain_node sample_request = Inr (Inr (JArr [], JArr [JStr ''online'']))
   \<and> createRestaurant plain_node sample_request empty_db =
       (respond 500
          [(''success'', JBool False),
           (''message'', JStr ''Something went wrong''),
           (''error'', JStr ''bcrypt is not defined'')], empty_db)"
  using createRestaurant_stops_at_bcrypt [of plain_node sample_request empty_db] sample_validates
  by (simp add: plain_node_def)

subsection \<open>Failed uploads\<close>

lemma uploadDocuments_fails:
  assumes "(doc, k) \<in> {(''fssaiDoc'', 0), (''gstDoc'', 1), (''aadharDoc'', 2)}"
    and "files_first fs doc = Some f"
    and "(\<exists>e. uploadOnCloudinary w k (path f) = Inl e)
           \<or> (\<exists>r. uploadOnCloudinary w k (path f) = Inr r \<and> \<not> truthy r)"
  shows "\<exists>e. uploadDocuments w fs = Inl e"
  using assms
  by (auto simp: uploadDocuments_def bindE_def files_path_def split: sum.splits option.splits)

lemma prepare_fails:
  assumes "\<exists>e. uploadDocuments w (files req) = Inl e"
  shows "\<exists>e. prepare w req oh pm = Inl e"
  using assms by (auto simp: prepare_def bindE_def split: sum.splits)

text \<open>
  C3. When a request has passed the validation steps and the upload of one of the three
  mandatory documents fails, by throwing or by returning a falsy value, the handler
  answers 500 and returns the store as it was: neither a restaurant record nor a
  permission record is created.
\<close>

theorem failed_upload_creates_no_record:
  assumes "validateRequest w req = Inr (Inr v)"
    and "(doc, k) \<in> {(''fssaiDoc'', 0), (''gstDoc'', 1), (''aadharDoc'', 2)}"
    and "files_first (files req) doc = Some f"
    and "(\<exists>e. uploadOnCloudinary w k (path f) = Inl e)
           \<or> (\<exists>r. uploadOnCloudinary w k (path f) = Inr r \<and> \<not> truthy r)"
  shows "\<exists>err. createRestaurant w req d =
           (respond 500
              [(''success'', JBool False),
               (''message'', JStr ''Something went wrong''),
               (''error'', JStr err)], d)"
proof -
  obtain oh pm where v: "v = (oh, pm)" by (cases v)
  from uploadDocuments_fails [OF assms(2-4)] prepare_fails
  obtain e where "prepare w req oh pm = Inl e" by blast
  with assms(1) v have "createRestaurant w req d = (somethingWentWrong e, d)"
    by (simp add: createRestaurant_def)
  then show ?thesis by (auto simp: somethingWentWrong_def)
qed

lemma second_upload_validates:
  "validateRequest second_upload_fails sample_request = Inr (Inr (JArr [], JArr [JStr ''online'']))"
  by (simp add: second_upload_fails_def sample_defs step_defs)

theorem failed_upload_creates_no_record_witness:
  "validateRequest second_upload_fails sample_request = Inr (Inr (JArr [], JArr [JStr ''online'']))
   \<and> files_first (files sample_request) ''gstDoc'' = Some \<lparr>path = ''uploads/gst.pdf''\<rparr>
   \<and> uploadOnCloudinary second_upload_fails 1 ''uploads/gst.pdf'' = Inr JNull
   \<and> (\<exists>err. createRestaurant second_upload_fails sample_request empty_db =
           (respond 500
              [(''success'', JBool False),
               (''message'', JStr ''Something went wrong''),
               (''error'', JStr err)], empty_db))"
  using failed_upload_creates_no_record
          [of second_upload_fails sample_request "(JArr [], JArr [JStr ''online''])"
              "''gstDoc''" 1 "\<lparr>path = ''uploads/gst.pdf''\<rparr>" empty_db]
        second_upload_validates
  by (simp add: second_upload_fails_def sample_request_def sample_files_def)

subsection \<open>The permission record\<close>

lemma Model_create_permission:
  assumes "Model_create sch oid (defaultPermissions rid) = Inr permission"
  shows "get_prop permission ''restaurantId'' = rid"
    and "get_prop permission ''permissions'' =
           JObj [(''canManageMenu'', JBool True),
                 (''canAcceptOrder'', JBool False),
                 (''canRejectOrder'', JBool False),
                 (''canManageOffers'', JBool False),
                 (''canViewReports'', JBool True)]"
  using assms
  by (auto simp: Model_create_def defaultPermissions_def split: option.splits)

text \<open>
  C4. Whenever \<^verbatim>\<open>createRestaurant\<close> answers 201, the store has exactly one restaurant
  record and exactly one permission record more than before; the permission record
  refers to the identifier of the new restaurant, which is the one the answer carries,
  and grants \<^verbatim>\<open>canManageMenu\<close> and \<^verbatim>\<open>canViewReports\<close> and none of
  \<^verbatim>\<open>canAcceptOrder\<close>, \<^verbatim>\<open>canRejectOrder\<close>, \<^verbatim>\<open>canManageOffers\<close>. (The answer 201
  needs a process whose global object provides \<^verbatim>\<open>bcrypt\<close>.)
\<close>

theorem created_restaurant_has_one_default_permission:
  assumes "createRestaurant w req d = (r, d')" and "status r = 201"
  shows "\<exists>newRestaurant permission.
            restaurants d' = restaurants d @ [newRestaurant]
          \<and> permissions d' = permissions d @ [permission]
          \<and> get_prop (get_prop (json r) ''data'') ''restaurantId'' = get_prop newRestaurant ''_id''
          \<and> get_prop permission ''restaurantId'' = get_prop newRestaurant ''_id''
          \<and> get_prop permission ''permissions'' =
              JObj [(''canManageMenu'', JBool True),
                    (''canAcceptOrder'', JBool False),
                    (''canRejectOrder'', JBool False),
                    (''canManageOffers'', JBool False),
                    (''canViewReports'', JBool True)]"
proof -
  from createRestaurant_cases [OF assms(1)] assms(2)
  obtain oh pm data where "persist w data d = (Inr r, d')" by auto
  from persist_cases [OF this]
  obtain newRestaurant permission where
    p: "Model_create (permissionModel w) (ObjectId_new w (d\<lparr>restaurants := restaurants d @ [newRestaurant]\<rparr>))
          (defaultPermissions (get_prop newRestaurant ''_id'')) = Inr permission"
    and d': "d' = d\<lparr>restaurants := restaurants d @ [newRestaurant], permissions := permissions d @ [permission]\<rparr>"
    and r: "r = respond 201
                  [(''success'', JBool True),
                   (''code'', JStr ''RESTAURANT_CREATED''),
                   (''data'', JObj
                      [(''restaurantId'', get_prop newRestaurant ''_id''),
                       (''approvalStatus'', get_prop newRestaurant ''approvalStatus'')])]"
    by auto
  have "restaurants d' = restaurants d @ [newRestaurant]" "permissions d' = permissions d @ [permission]"
    by (simp_all add: d')
  moreover have "get_prop (get_prop (json r) ''data'') ''restaurantId'' = get_prop newRestaurant ''_id''"
    by (simp add: r respond_def)
  ultimately show ?thesis
    using Model_create_permission [OF p] by blast
qed

lemma sample_created:
  "createRestaurant node_with_bcrypt sample_request empty_db =
    (respond 201
       [(''success'', JBool True), (''code'', JStr ''RESTAURANT_CREATED''),
        (''data'', JObj [(''restaurantId'', JStr ''000000000000000000000000''),
                        (''approvalStatus'', JStr ''pending'')])],
     \<lparr>restaurants =
     [JObj
       [(''_id'', JStr ''000000000000000000000000''),
        (''name'', JStr ''Spice Garden''),
        (''ownerName'', JStr ''Asha Rao''),
        (''address'',
         JObj
          [(''street'', JStr ''12 MG Road''), (''city'', JStr ''Pune''),
           (''state'', JStr ''MH''), (''zip'', JStr [])]),
        (''location'',
         JObj
          [(''type'', JStr ''Point''),
           (''coordinates'', JArr [JNum (Fin 0), JNum (Fin 0)])]),
        (''phone'', JStr ''9876543210''),
        (''email'', JStr ''asha@example.com''),
        (''password'', JStr ''$2b$10$abcdefghijklmnopqrstuvssapterc3s''),
        (''openingHours'', JArr []), (''foodType'', JStr ''veg''),
        (''minOrderAmount'', JNum (Fin 100)),
        (''paymentMethods'', JArr [JStr ''online'']),
        (''kyc'',
         JObj
          [(''fssaiNumber'', JStr ''12345678901234''),
           (''gstNumber'', JStr ''22AAAAA0000A1Z5''),
           (''aadharNumber'', JStr ''123412341234'')]),
        (''kycDocuments'',
         JObj
          [(''fssaiDocUrl'',
            JStr ''https://res.cloudinary.com/demo/uploads/fssai.pdf''),
           (''gstDocUrl'',
            JStr ''https://res.cloudinary.com/demo/uploads/gst.pdf''),
           (''aadharDocUrl'',
            JStr ''https://res.cloudinary.com/demo/uploads/aadhar.pdf'')]),
        (''approvalStatus'', JStr ''pending'')]],
     permissions =
       [JObj
         [(''_id'', JStr ''000000000000000000000001''),
          (''restaurantId'', JStr ''000000000000000000000000''),
          (''permissions'',
           JObj
            [(''canManageMenu'', JBool True),
             (''canAcceptOrder'', JBool False),
             (''canRejectOrder'', JBool False),
             (''canManageOffers'', JBool False),
             (''canViewReports'', JBool True)])]],
     categories = [], products = [], earnings = []\<rparr>)"
  by code_simp

theorem created_restaurant_has_one_default_permission_witness:
  "status (fst (createRestaurant node_with_bcrypt sample_request empty_db)) = 201
   \<and> (\<exists>newRestaurant permission.
        restaurants (snd (createRestaurant node_with_bcrypt sample_request empty_db)) = [newRestaurant]
      \<and> permissions (snd (createRestaurant node_with_bcrypt sample_request empty_db)) = [permission]
      \<and> get_prop permission ''restaurantId'' = get_prop newRestaurant ''_id''
      \<and> get_prop permission ''permissions'' =
              JObj [(''canManageMenu'', JBool True),
                    (''canAcceptOrder'', JBool False),
                    (''canRejectOrder'', JBool False),
                    (''canManageOffers'', JBool False),
                    (''canViewReports'', JBool True)])"
proof -
  have s: "status (fst (createRestaurant node_with_bcrypt sample_request empty_db)) = 201"
    by (simp add: sample_created respond_def)
  from created_restaurant_has_one_default_permission
         [of node_with_bcrypt sample_request empty_db
             "fst (createRestaurant node_with_bcrypt sample_request empty_db)"
             "snd (createRestaurant node_with_bcrypt sample_request empty_db)", OF _ s]
  show ?thesis using s by (simp add: empty_db_def) blast
qed

subsection \<open>Coordinates\<close>

lemma missingFields_coordinate:
  assumes "k \<in> {''longitude'', ''latitude''}"
  shows "missingFields (set_prop b ''address'' (set_prop (get_prop b ''address'') k x)) = missingFields b"
proof -
  let ?b = "set_prop b ''address'' (set_prop (get_prop b ''address'') k x)"
  have top: "opt_get ?b f = opt_get b f" if "f \<noteq> ''address''" for f
    using that by (simp add: opt_get_set_prop_other)
  have addr: "opt_get ?b ''address'' = set_prop (opt_get b ''address'') k x"
    by (simp add: opt_get_address)
  have sub: "opt_get (set_prop (opt_get b ''address'') k x) f = opt_get (opt_get b ''address'') f"
    if "f \<in> {''street'', ''city'', ''state''}" for f
    using that assms by (auto simp: opt_get_set_prop_other)
  show ?thesis
    unfolding missingFields_def is_missing_def requiredFields_def
    by (simp add: top addr sub set_prop_undefined Let_def)
qed

lemma validateRequest_coordinate:
  assumes "k \<in> {''longitude'', ''latitude''}"
  shows "validateRequest w (req\<lparr>body := set_prop (body req) ''address''
                                         (set_prop (get_prop (body req) ''address'') k x)\<rparr>)
         = validateRequest w req"
  unfolding validateRequest_def checkRequiredFields_def checkPassword_def checkFoodType_def
    parseOpeningHours_def checkPaymentMethods_def
  by (simp add: missingFields_coordinate [OF assms] member_set_prop_other trimmed_set_prop_other)

lemma restaurantData_location:
  assumes "restaurantData w b h oh pm f g a = Inr data"
  shows "map_of (doc_fields data) ''location'' =
           Some (JObj
             [(''type'', JStr ''Point''),
              (''coordinates'', JArr
                 [coordinate w (get_prop (get_prop b ''address'') ''longitude''),
                  coordinate w (get_prop (get_prop b ''address'') ''latitude'')])])"
  using assms unfolding restaurantData_def bindE_eq_Inr
  by (auto simp: member_def split: if_splits)

lemma prepare_location:
  assumes "prepare w req oh pm = Inr data"
  shows "map_of (doc_fields data) ''location'' =
           Some (JObj
             [(''type'', JStr ''Point''),
              (''coordinates'', JArr
                 [coordinate w (get_prop (get_prop (body req) ''address'') ''longitude''),
                  coordinate w (get_prop (get_prop (body req) ''address'') ''latitude'')])])"
  using assms
  by (auto simp: prepare_def bindE_eq_Inr dest: restaurantData_location)

lemma Model_create_keeps:
  assumes "Model_create sch oid data = Inr doc" and "map_of (doc_fields data) k = Some v" and "k \<noteq> ''_id''"
  shows "get_prop doc k = v"
  using assms by (auto simp: Model_create_def map_add_def split: option.splits)

text \<open>
  C10. A coordinate whose \<^verbatim>\<open>parseFloat\<close> is not a number, as it is for an absent one,
  becomes 0; the restaurant record stored with a 201 answer has
  \<^verbatim>\<open>location.coordinates\<close> equal to the pair of these values for
  \<^verbatim>\<open>address.longitude\<close> and \<^verbatim>\<open>address.latitude\<close>. Neither path is in the list of
  required fields, and replacing either coordinate of a payload by any value whatever
  leaves the result of the six validation steps unchanged.
\<close>

theorem coordinates_default_to_zero:
  "(parseFloat (Number_toString w) v = NaN \<longrightarrow> coordinate w v = JNum (Fin 0))
   \<and> parseFloat (Number_toString w) JUndefined = NaN
   \<and> (createRestaurant w req d = (r, d') \<and> status r = 201 \<longrightarrow>
        (\<exists>newRestaurant.
           restaurants d' = restaurants d @ [newRestaurant] \<and>
           get_prop (get_prop newRestaurant ''location'') ''coordinates'' =
             JArr [coordinate w (get_prop (get_prop (body req) ''address'') ''longitude''),
                   coordinate w (get_prop (get_prop (body req) ''address'') ''latitude'')]))
   \<and> ''address.longitude'' \<notin> set requiredFields
   \<and> ''address.latitude'' \<notin> set requiredFields
   \<and> (k \<in> {''longitude'', ''latitude''} \<longrightarrow>
        validateRequest w (req\<lparr>body := set_prop (body req) ''address''
                                         (set_prop (get_prop (body req) ''address'') k x)\<rparr>)
        = validateRequest w req)"
proof (intro conjI impI)
  show "coordinate w v = JNum (Fin 0)" if "parseFloat (Number_toString w) v = NaN"
    using that by (simp add: coordinate_def js_or_def)
  show "parseFloat (Number_toString w) JUndefined = NaN"
    by (simp add: parseFloat_def trim_start_def is_space_def scan_decimal_def scan_unsigned_def
        starts_with_def is_digit_def)
  show "''address.longitude'' \<notin> set requiredFields" "''address.latitude'' \<notin> set requiredFields"
    by (simp_all add: requiredFields_def)
  show "validateRequest w (req\<lparr>body := set_prop (body req) ''address''
                                         (set_prop (get_prop (body req) ''address'') k x)\<rparr>)
        = validateRequest w req" if "k \<in> {''longitude'', ''latitude''}"
    using that by (rule validateRequest_coordinate)
next
  assume a: "createRestaurant w req d = (r, d') \<and> status r = 201"
  with createRestaurant_cases [of w req d r d']
  obtain oh pm data where prep: "prepare w req oh pm = Inr data"
    and pers: "persist w data d = (Inr r, d')" by auto
  from persist_cases [OF pers]
  obtain newRestaurant permission where
    c: "Model_create (restaurantModel w) (ObjectId_new w d) data = Inr newRestaurant"
    and d': "d' = d\<lparr>restaurants := restaurants d @ [newRestaurant], permissions := permissions d @ [permission]\<rparr>"
    by auto
  have "get_prop newRestaurant ''location'' =
          JObj
             [(''type'', JStr ''Point''),
              (''coordinates'', JArr
                 [coordinate w (get_prop (get_prop (body req) ''address'') ''longitude''),
                  coordinate w (get_prop (get_prop (body req) ''address'') ''latitude'')])]"
    by (rule Model_create_keeps [OF c prepare_location [OF prep]]) simp
  then show "\<exists>newRestaurant.
           restaurants d' = restaurants d @ [newRestaurant] \<and>
           get_prop (get_prop newRestaurant ''location'') ''coordinates'' =
             JArr [coordinate w (get_prop (get_prop (body req) ''address'') ''longitude''),
                   coordinate w (get_prop (get_prop (body req) ''address'') ''latitude'')]"
    by (simp add: d')
qed

lemma malformed_coordinates_status:
  "status (fst (createRestaurant node_with_bcrypt malformed_coordinates_request empty_db)) = 201"
  by code_simp

lemma parseFloat_east: "parseFloat (Number_toString node_with_bcrypt) (JStr ''east'') = NaN"
  by code_simp

theorem coordinates_default_to_zero_witness:
  "parseFloat (Number_toString node_with_bcrypt) (JStr ''east'') = NaN
   \<and> status (fst (createRestaurant node_with_bcrypt malformed_coordinates_request empty_db)) = 201
   \<and> (\<exists>newRestaurant.
         restaurants (snd (createRestaurant node_with_bcrypt malformed_coordinates_request empty_db))
           = [newRestaurant]
       \<and> get_prop (get_prop newRestaurant ''location'') ''coordinates'' = JArr [JNum (Fin 0), JNum (Fin 0)])
   \<and> validateRequest node_with_bcrypt
        (sample_request\<lparr>body := set_prop (body sample_request) ''address''
            (set_prop (get_prop (body sample_request) ''address'') ''longitude'' (JStr ''east''))\<rparr>)
      = validateRequest node_with_bcrypt sample_request"
proof -
  note t = coordinates_default_to_zero
             [of node_with_bcrypt "JStr ''east''" malformed_coordinates_request empty_db
                 "fst (createRestaurant node_with_bcrypt malformed_coordinates_request empty_db)"
                 "snd (createRestaurant node_with_bcrypt malformed_coordinates_request empty_db)"]
  have lon: "get_prop (get_prop (body malformed_coordinates_request) ''address'') ''longitude'' = JStr ''east''"
    and lat: "get_prop (get_prop (body malformed_coordinates_request) ''address'') ''latitude'' = JUndefined"
    by (simp_all add: malformed_coordinates_request_def sample_request_def sample_body_def)
  have z: "coordinate node_with_bcrypt (JStr ''east'') = JNum (Fin 0)"
          "coordinate node_with_bcrypt JUndefined = JNum (Fin 0)"
    using t parseFloat_east by (auto simp: coordinate_def js_or_def)
  have "\<exists>newRestaurant.
         restaurants (snd (createRestaurant node_with_bcrypt malformed_coordinates_request empty_db))
           = [newRestaurant]
       \<and> get_prop (get_prop newRestaurant ''location'') ''coordinates'' = JArr [JNum (Fin 0), JNum (Fin 0)]"
    using t malformed_coordinates_status by (simp add: lon lat z empty_db_def)
  moreover have "validateRequest node_with_bcrypt
        (sample_request\<lparr>body := set_prop (body sample_request) ''address''
            (set_prop (get_prop (body sample_request) ''address'') ''longitude'' (JStr ''east''))\<rparr>)
      = validateRequest node_with_bcrypt sample_request"
    using coordinates_default_to_zero [of node_with_bcrypt JUndefined sample_request empty_db _ _ "''longitude''" "JStr ''east''"]
    by simp
  ultimately show ?thesis
    using parseFloat_east malformed_coordinates_status by simp
qed

subsection \<open>Payment methods\<close>




subsection \<open>Business hours\<close>
















subsection \<open>The menu\<close>

lemma select_without_keys: "k \<in> set ks \<Longrightarrow> k \<notin> set (map fst (doc_fields (select_without ks doc)))"
  by (auto simp: select_without_def)

lemma select_without_get_prop: "k \<in> set ks \<Longrightarrow> get_prop (select_without ks doc) k = JUndefined"
proof -
  assume "k \<in> set ks"
  then have "map_of (filter (\<lambda>(k, v). k \<notin> set ks) (doc_fields doc)) k = None"
    by (auto simp: map_of_eq_None_iff)
  then show ?thesis by (simp add: select_without_def)
qed

lemma menuEntry_items:
  "get_prop (menuEntry rid prods category) ''items'' =
     JArr (map (select_without [''revenueShare'', ''costPrice'', ''profitMargin''])
            (find_where [(''restaurantId'', JStr rid), (''categoryId'', get_prop category ''_id'')] prods))"
  by (simp add: menuEntry_def Let_def)

text \<open>
  C8. For a well-shaped identifier: when the restaurant has no active category the answer
  is the 404 failure, not an empty success; when it has some, the answer is 200 with one
  entry per active category in order, an entry whose category has no product has the
  empty list as its items (and 0 as its count), and no item of any entry has a
  \<^verbatim>\<open>revenueShare\<close>, \<^verbatim>\<open>costPrice\<close> or \<^verbatim>\<open>profitMargin\<close> property.
\<close>

theorem getRestaurantMenu_categories_and_items:
  assumes "ObjectId_isValid w (restaurantId req)"
    and "cats = find_where [(''restaurantId'', JStr (restaurantId req)), (''active'', JBool True)] (categories d)"
  shows
    "(cats = [] \<longrightarrow>
        getRestaurantMenu w req d =
          (respond 404
             [(''message'', JStr ''No categories found for this restaurant.''),
              (''messageType'', JStr ''failure''),
              (''data'', JNull)], d))
   \<and> (cats \<noteq> [] \<longrightarrow>
        (\<exists>menu. getRestaurantMenu w req d =
             (respond 200
                [(''message'', JStr ''Menu fetched successfully''),
                 (''messageType'', JStr ''success''),
                 (''data'', JArr menu)], d)
         \<and> length menu = length cats
         \<and> (\<forall>i < length cats.
               get_prop (menu ! i) ''categoryId'' = get_prop (cats ! i) ''_id''
             \<and> (find_where [(''restaurantId'', JStr (restaurantId req)),
                             (''categoryId'', get_prop (cats ! i) ''_id'')] (products d) = []
                  \<longrightarrow> get_prop (menu ! i) ''items'' = JArr []
                      \<and> get_prop (menu ! i) ''totalProducts'' = JNum (Fin 0))
             \<and> (\<exists>items. get_prop (menu ! i) ''items'' = JArr items
                  \<and> (\<forall>item \<in> set items. \<forall>k \<in> {''revenueShare'', ''costPrice'', ''profitMargin''}.
                        k \<notin> set (map fst (doc_fields item)) \<and> get_prop item k = JUndefined)))))"
proof (intro conjI impI)
  assume "cats = []"
  with assms show "getRestaurantMenu w req d =
          (respond 404
             [(''message'', JStr ''No categories found for this restaurant.''),
              (''messageType'', JStr ''failure''),
              (''data'', JNull)], d)"
    by (simp add: getRestaurantMenu_def)
next
  assume ne: "cats \<noteq> []"
  let ?menu = "map (menuEntry (restaurantId req) (products d)) cats"
  have resp: "getRestaurantMenu w req d =
             (respond 200
                [(''message'', JStr ''Menu fetched successfully''),
                 (''messageType'', JStr ''success''),
                 (''data'', JArr ?menu)], d)"
    using assms ne by (simp add: getRestaurantMenu_def Let_def)
  have each: "get_prop (?menu ! i) ''categoryId'' = get_prop (cats ! i) ''_id''
             \<and> (find_where [(''restaurantId'', JStr (restaurantId req)),
                             (''categoryId'', get_prop (cats ! i) ''_id'')] (products d) = []
                  \<longrightarrow> get_prop (?menu ! i) ''items'' = JArr []
                      \<and> get_prop (?menu ! i) ''totalProducts'' = JNum (Fin 0))
             \<and> (\<exists>items. get_prop (?menu ! i) ''items'' = JArr items
                  \<and> (\<forall>item \<in> set items. \<forall>k \<in> {''revenueShare'', ''costPrice'', ''profitMargin''}.
                        k \<notin> set (map fst (doc_fields item)) \<and> get_prop item k = JUndefined))"
    if "i < length cats" for i
  proof (intro conjI impI)
    show "get_prop (?menu ! i) ''categoryId'' = get_prop (cats ! i) ''_id''"
      using that by (simp add: menuEntry_def Let_def)
    show "get_prop (?menu ! i) ''items'' = JArr []"
      and "get_prop (?menu ! i) ''totalProducts'' = JNum (Fin 0)"
      if "find_where [(''restaurantId'', JStr (restaurantId req)),
                             (''categoryId'', get_prop (cats ! i) ''_id'')] (products d) = []"
      using that \<open>i < length cats\<close> by (simp_all add: menuEntry_def Let_def)
    show "\<exists>items. get_prop (?menu ! i) ''items'' = JArr items
                  \<and> (\<forall>item \<in> set items. \<forall>k \<in> {''revenueShare'', ''costPrice'', ''profitMargin''}.
                        k \<notin> set (map fst (doc_fields item)) \<and> get_prop item k = JUndefined)"
      using that
      by (auto simp: menuEntry_items select_without_get_prop
          intro!: select_without_keys [where ks = "[''revenueShare'', ''costPrice'', ''profitMargin'']", simplified])
  qed
  show "\<exists>menu. getRestaurantMenu w req d =
             (respond 200
                [(''message'', JStr ''Menu fetched successfully''),
                 (''messageType'', JStr ''success''),
                 (''data'', JArr menu)], d)
         \<and> length menu = length cats
         \<and> (\<forall>i < length cats.
               get_prop (menu ! i) ''categoryId'' = get_prop (cats ! i) ''_id''
             \<and> (find_where [(''restaurantId'', JStr (restaurantId req)),
                             (''categoryId'', get_prop (cats ! i) ''_id'')] (products d) = []
                  \<longrightarrow> get_prop (menu ! i) ''items'' = JArr []
                      \<and> get_prop (menu ! i) ''totalProducts'' = JNum (Fin 0))
             \<and> (\<exists>items. get_prop (menu ! i) ''items'' = JArr items
                  \<and> (\<forall>item \<in> set items. \<forall>k \<in> {''revenueShare'', ''costPrice'', ''profitMargin''}.
                        k \<notin> set (map fst (doc_fields item)) \<and> get_prop item k = JUndefined)))"
    by (rule exI [of _ ?menu]) (use resp each in simp)
qed

lemma menu_categories:
  "find_where [(''restaurantId'', JStr (restaurantId menu_request)), (''active'', JBool True)] (categories menu_db)
     = [JObj [(''_id'', JStr ''c1''), (''restaurantId'', JStr sample_id), (''active'', JBool True),
              (''name'', JStr ''Starters'')],
        JObj [(''_id'', JStr ''c2''), (''restaurantId'', JStr sample_id), (''active'', JBool True),
              (''name'', JStr ''Desserts'')]]"
  "find_where [(''restaurantId'', JStr (restaurantId menu_request)), (''active'', JBool True)]
     (categories one_restaurant_db) = []"
  "ObjectId_isValid plain_node (restaurantId menu_request)"
  by (simp_all add: find_where_def menu_request_def menu_db_def one_restaurant_db_def empty_db_def
      sample_id_def plain_node_def sample_isValid_def is_hex_def)

lemma menu_sample:
  "getRestaurantMenu plain_node menu_request menu_db =
     (respond 200
        [(''message'', JStr ''Menu fetched successfully''),
         (''messageType'', JStr ''success''),
         (''data'',
          JArr
           [JObj
             [(''categoryId'', JStr ''c1''),
              (''categoryName'', JStr ''Starters''),
              (''description'', JUndefined), (''images'', JUndefined),
              (''totalProducts'', JNum (Fin 1)),
              (''items'',
               JArr
                [JObj
                  [(''_id'', JStr ''p1''),
                   (''restaurantId'', JStr ''65f1c0ffee0123456789abcd''),
                   (''categoryId'', JStr ''c1''),
                   (''name'', JStr ''Samosa''),
                   (''price'', JNum (Fin 40))]])],
            JObj
             [(''categoryId'', JStr ''c2''),
              (''categoryName'', JStr ''Desserts''),
              (''description'', JUndefined), (''images'', JUndefined),
              (''totalProducts'', JNum (Fin 0)), (''items'', JArr [])]])], menu_db)"
  by code_simp

theorem getRestaurantMenu_categories_and_items_witness:
  "ObjectId_isValid plain_node (restaurantId menu_request)
   \<and> getRestaurantMenu plain_node menu_request one_restaurant_db =
       (respond 404
          [(''message'', JStr ''No categories found for this restaurant.''),
           (''messageType'', JStr ''failure''),
           (''data'', JNull)], one_restaurant_db)
   \<and> (\<exists>starters desserts.
        getRestaurantMenu plain_node menu_request menu_db =
          (respond 200
             [(''message'', JStr ''Menu fetched successfully''),
              (''messageType'', JStr ''success''),
              (''data'', JArr [starters, desserts])], menu_db)
        \<and> get_prop desserts ''items'' = JArr []
        \<and> (\<exists>samosa. get_prop starters ''items'' = JArr [samosa]
              \<and> get_prop samosa ''name'' = JStr ''Samosa''
              \<and> get_prop samosa ''costPrice'' = JUndefined
              \<and> get_prop samosa ''profitMargin'' = JUndefined
              \<and> get_prop samosa ''revenueShare'' = JUndefined))"
proof -
  have "getRestaurantMenu plain_node menu_request one_restaurant_db =
       (respond 404
          [(''message'', JStr ''No categories found for this restaurant.''),
           (''messageType'', JStr ''failure''),
           (''data'', JNull)], one_restaurant_db)"
    using getRestaurantMenu_categories_and_items
            [of plain_node menu_request "[]" one_restaurant_db] menu_categories
    by simp
  moreover
  have "\<exists>menu. getRestaurantMenu plain_node menu_request menu_db =
             (respond 200
                [(''message'', JStr ''Menu fetched successfully''),
                 (''messageType'', JStr ''success''),
                 (''data'', JArr menu)], menu_db) \<and> length menu = 2"
    using getRestaurantMenu_categories_and_items
            [of plain_node menu_request _ menu_db, OF menu_categories(3) menu_categories(1) [symmetric]]
    by auto
  ultimately show ?thesis
    using menu_categories(3) by (simp add: menu_sample respond_def)
qed

subsection \<open>The earning summary\<close>





subsection \<open>Identifiers without the shape of one\<close>

lemma getKyc_malformed_id:
  "\<not> ObjectId_isValid w (restaurantId req) \<Longrightarrow>
     getKyc w req d = (message_only 500 ''Server error while fetching KYC.'', d)"
  by (simp add: getKyc_def findById_def castObjectId_def bindE_def)

lemma addKyc_malformed_id:
  "\<not> ObjectId_isValid w (restaurantId req) \<Longrightarrow>
     addKyc w req d = (message_only 500 ''Server error while uploading KYC.'', d)"
  by (simp add: addKyc_def findById_def castObjectId_def bindE_def)

lemma malformed_id_invalid: "\<not> ObjectId_isValid plain_node (restaurantId malformed_id_request)"
  by (simp add: malformed_id_request_def plain_node_def sample_isValid_def)

text \<open>
  C2. The claim is that every operation taking a restaurant identifier answers 400 to an
  identifier without the shape of one. \<^verbatim>\<open>getKyc\<close> and \<^verbatim>\<open>addKyc\<close> do not test the
  shape: the lookup throws on the cast, and the \<^verbatim>\<open>catch\<close> block answers 500. At the
  identifier \<^verbatim>\<open>not-an-id\<close> both answer 500 and not 400, and so does
  \<^verbatim>\<open>getRestaurantEarningSummary\<close>, while \<^verbatim>\<open>getRestaurantById\<close> and
  \<^verbatim>\<open>getRestaurantMenu\<close>, which test the shape before the lookup, answer 400.
\<close>

theorem kyc_operations_answer_500_to_malformed_id:
  "getKyc plain_node malformed_id_request one_restaurant_db =
     (message_only 500 ''Server error while fetching KYC.'', one_restaurant_db)
   \<and> addKyc plain_node malformed_id_request one_restaurant_db =
     (message_only 500 ''Server error while uploading KYC.'', one_restaurant_db)
   \<and> status (fst (getKyc plain_node malformed_id_request one_restaurant_db)) \<noteq> 400
   \<and> status (fst (addKyc plain_node malformed_id_request one_restaurant_db)) \<noteq> 400
   \<and> status (fst (getRestaurantEarningSummary plain_node malformed_id_request one_restaurant_db)) = 500
   \<and> getRestaurantById plain_node malformed_id_request one_restaurant_db =
     (message_only 400 ''Invalid restaurantId format.'', one_restaurant_db)
   \<and> status (fst (getRestaurantMenu plain_node malformed_id_request one_restaurant_db)) = 400"
  using malformed_id_invalid
  by (simp add: getKyc_malformed_id addKyc_malformed_id getRestaurantById_def message_only_def respond_def
      getRestaurantEarningSummary_def castObjectId_def getRestaurantMenu_def malformed_id_request_def)

end
